theory Spec2Isabelle
  imports Complex_Main "HOL-Library.Char_ord" "HOL-Library.List_Lexorder"
begin

section \<open>Decimal numerals\<close>

text \<open>
  The dice roller builds roll formulas as strings: \<^verbatim>\<open>x.result.toString()\<close> turns a die
  result into its decimal numeral, and the host's formula reader turns the numeral back
  into a number. Both directions are written out here for integers.
\<close>

definition digit_char :: "nat \<Rightarrow> char" where
  "digit_char d = ''0123456789'' ! d"

definition is_digit :: "char \<Rightarrow> bool" where
  "is_digit c = (c \<in> set ''0123456789'')"

definition digit_val :: "char \<Rightarrow> nat" where
  "digit_val c = (of_char c :: nat) - 48"

function string_of_nat :: "nat \<Rightarrow> string" where
  "string_of_nat n =
     (if n < 10 then [digit_char n]
      else string_of_nat (n div 10) @ [digit_char (n mod 10)])"
  by pat_completeness auto
termination
  by (relation "measure id") auto

declare string_of_nat.simps [simp del]

text \<open>\<^verbatim>\<open>Number.prototype.toString\<close> on an integer.\<close>

definition toString :: "int \<Rightarrow> string" where
  "toString i = (if i < 0 then CHR ''-'' # string_of_nat (nat (- i)) else string_of_nat (nat i))"

definition nat_of_digits :: "string \<Rightarrow> nat" where
  "nat_of_digits s = foldl (\<lambda>a c. 10 * a + digit_val c) 0 s"

definition is_numeral :: "string \<Rightarrow> bool" where
  "is_numeral s = (s \<noteq> [] \<and> list_all is_digit s)"


section \<open>The host's roll evaluator\<close>

text \<open>
  The roller hands the host a pool formula \<^verbatim>\<open>"{" + rollstring + "}cs>" + tni\<close> or
  \<^verbatim>\<open>"{" + rollstring + "}kh1"\<close>. The body \<^verbatim>\<open>rollstring\<close> is kept as the string
  the source builds; the braces and the modifier are kept as a constructor. The host
  splits the body at its commas into the pool's term expressions, evaluates each term
  (a die \<^verbatim>\<open>1dN\<close> takes the next draw of the randomness source, a numeral is its own
  value) and records one result per term. Under \<^verbatim>\<open>cs>t\<close> the total is the number of
  results strictly greater than \<^verbatim>\<open>t\<close>; under \<^verbatim>\<open>kh1\<close> it is the largest result. A term
  the host cannot read makes the evaluation fail.
\<close>

fun split_commas :: "string \<Rightarrow> string list" where
  "split_commas [] = [[]]"
| "split_commas (c # cs) =
     (if c = CHR '','' then [] # split_commas cs
      else (case split_commas cs of [] \<Rightarrow> [[c]] | w # ws \<Rightarrow> (c # w) # ws))"

datatype pool_term = Die nat | Numeric int

definition parse_term :: "string \<Rightarrow> pool_term option" where
  "parse_term s =
     (if take 2 s = ''1d'' \<and> is_numeral (drop 2 s) then Some (Die (nat_of_digits (drop 2 s)))
      else if is_numeral s then Some (Numeric (int (nat_of_digits s)))
      else if take 1 s = ''-'' \<and> is_numeral (drop 1 s)
        then Some (Numeric (- int (nat_of_digits (drop 1 s))))
      else None)"

text \<open>
  The randomness source: \<open>draw k n\<close> is the face shown by the \<open>k\<close>-th die drawn since
  the start, when that die has \<open>n\<close> faces.
\<close>

type_synonym dice_source = "nat \<Rightarrow> nat \<Rightarrow> int"

fun eval_terms :: "dice_source \<Rightarrow> nat \<Rightarrow> string list \<Rightarrow> (int list \<times> nat) option" where
  "eval_terms dr k [] = Some ([], k)"
| "eval_terms dr k (t # ts) =
     (case parse_term t of
        None \<Rightarrow> None
      | Some (Die n) \<Rightarrow>
          (case eval_terms dr (Suc k) ts of
             None \<Rightarrow> None
           | Some (rs, k') \<Rightarrow> Some (dr k n # rs, k'))
      | Some (Numeric v) \<Rightarrow>
          (case eval_terms dr k ts of
             None \<Rightarrow> None
           | Some (rs, k') \<Rightarrow> Some (v # rs, k')))"

datatype modifier = CountSuccessesGT int | KeepHighest

text \<open>
  \<^verbatim>\<open>roll.terms[0]\<close> is the pool: \<^verbatim>\<open>.terms\<close> its term expressions, \<^verbatim>\<open>.results\<close> one
  result per term. \<^verbatim>\<open>roll.terms\<close> is \<open>poolterms\<close> here.
\<close>

record poolterm =
  terms :: "string list"
  results :: "int list"

record roll =
  poolterms :: "poolterm list"
  total :: int

definition pool_total :: "modifier \<Rightarrow> int list \<Rightarrow> int" where
  "pool_total m rs =
     (case m of
        CountSuccessesGT t \<Rightarrow> int (length (filter (\<lambda>x. x > t) rs))
      | KeepHighest \<Rightarrow> (case rs of [] \<Rightarrow> 0 | r # rs' \<Rightarrow> fold max rs' r))"

definition evaluate :: "dice_source \<Rightarrow> nat \<Rightarrow> string \<Rightarrow> modifier \<Rightarrow> (roll \<times> nat) option" where
  "evaluate dr k rollstring m =
     (case eval_terms dr k (split_commas rollstring) of
        None \<Rightarrow> None
      | Some (rs, k') \<Rightarrow>
          Some (\<lparr>poolterms = [\<lparr>terms = split_commas rollstring, results = rs\<rparr>],
                 total = pool_total m rs\<rparr>, k'))"


section \<open>The dice roller\<close>

text \<open>
  What the roller reads from its surroundings: the randomness source, the speaker helper
  and the result colours of \<^verbatim>\<open>helpers.js\<close>, and the host's localisation.
\<close>

record resultColors =
  success :: string
  tie :: string
  normal :: string
  failure :: string
  botch :: string

record CommonSystemInfo =
  resultFontSize :: string
  resultColors :: resultColors

record env =
  draw :: dice_source
  getMacroSpeaker :: "string option \<Rightarrow> string"
  localize :: "string \<Rightarrow> string"
  format :: "string \<Rightarrow> (string \<times> string) list \<Rightarrow> string"
  info :: CommonSystemInfo

record TNData =
  successes :: int
  ties :: int

record message =
  isRoll :: bool
  speaker :: string
  flavor :: string
  rollType :: string
  label :: "string option"
  originalRoll :: bool
  hasOne :: bool
  mroll :: roll

record DiceReturn =
  roll :: roll
  highest :: int
  tnData :: "TNData option"
  message :: message
  isSent :: bool

text \<open>
  The state a roll can change: how many dice have been drawn from the randomness source,
  and the chat log.
\<close>

record world =
  drawn :: nat
  chat :: "message list"

datatype error = RollFormulaError

text \<open>The \<^verbatim>\<open>for\<close> loops of \<^verbatim>\<open>formRoll\<close>: append the piece \<open>n\<close> times.\<close>

fun append_times :: "nat \<Rightarrow> string \<Rightarrow> string \<Rightarrow> string" where
  "append_times 0 piece rollstring = rollstring"
| "append_times (Suc n) piece rollstring = append_times n piece (rollstring @ piece)"

definition formRoll :: "int \<Rightarrow> int \<Rightarrow> int \<Rightarrow> int \<Rightarrow> int \<Rightarrow> string" where
  "formRoll d12 d10 d8 d6 d4 =
     (let rollstring = '''';
          rollstring = append_times (nat d12) ''1d12,'' rollstring;
          rollstring = append_times (nat d10) ''1d10,'' rollstring;
          rollstring = append_times (nat d8) ''1d8,'' rollstring;
          rollstring = append_times (nat d6) ''1d6,'' rollstring;
          rollstring = append_times (nat d4) ''1d4,'' rollstring
      in if length rollstring > 0 then butlast rollstring else rollstring)"

definition label_part :: "string \<Rightarrow> string" where
  "label_part lbl = (if length lbl > 0 then ''<p>'' @ lbl @ ''</p>'' else '''')"

definition result_part :: "env \<Rightarrow> string \<Rightarrow> string \<Rightarrow> string" where
  \<open>result_part e colour txt =
     ''<p style="font-size:'' @ resultFontSize (info e) @ '';color:'' @ colour @ ''">''
       @ txt @ ''</p>''\<close>

definition flavorStringTN :: "env \<Rightarrow> int \<Rightarrow> int \<Rightarrow> bool \<Rightarrow> string \<Rightarrow> string" where
  "flavorStringTN e succs tiecount botched lbl =
     (if succs > 0 then
        label_part lbl @ result_part e (success (resultColors (info e)))
          (format e ''urbanjungle.chat.success'' [(''successes'', toString succs)])
      else if botched then
        label_part lbl @ result_part e (botch (resultColors (info e)))
          (localize e ''urbanjungle.chat.botch'')
      else if tiecount > 0 then
        label_part lbl @ result_part e (tie (resultColors (info e)))
          (format e ''urbanjungle.chat.tie'' [(''ties'', toString tiecount)])
      else
        label_part lbl @ result_part e (failure (resultColors (info e)))
          (localize e ''urbanjungle.chat.failure''))"

text \<open>
  In \<^verbatim>\<open>flavorStringHighest\<close> the template literal breaks the line after the font size:
  the style attribute holds a line feed and four blanks before \<^verbatim>\<open>color:\<close>.
\<close>

definition flavorStringHighest :: "env \<Rightarrow> int \<Rightarrow> string \<Rightarrow> string" where
  \<open>flavorStringHighest e hi lbl =
     label_part lbl @ ''<p style="font-size:'' @ resultFontSize (info e) @ '';''
       @ [CHR 0x0A] @ ''    color:''
       @ (if hi > 1 then normal (resultColors (info e)) else botch (resultColors (info e)))
       @ ''">'' @ format e ''urbanjungle.chat.highest'' [(''highest'', toString hi)]
       @ ''</p>''\<close>

text \<open>
  The \<^verbatim>\<open>forEach\<close> over the results in \<^verbatim>\<open>rollTargetNumber\<close> and \<^verbatim>\<open>copyToRollTN\<close>: the
  accumulator is \<open>(highest, ties, hasOne)\<close>.
\<close>

fun tally :: "int \<Rightarrow> int list \<Rightarrow> int \<times> int \<times> bool \<Rightarrow> int \<times> int \<times> bool" where
  "tally tni [] acc = acc"
| "tally tni (x # xs) (hi, tiecount, one) =
     tally tni xs
       (if x > hi then x else hi, if x = tni then tiecount + 1 else tiecount,
        if x = 1 then True else one)"

text \<open>\<^verbatim>\<open>roll.terms[0].results\<close>, read as a list of numbers; a roll without terms has none.\<close>

definition first_results :: "roll \<Rightarrow> int list" where
  "first_results r = (case poolterms r of [] \<Rightarrow> [] | p # ps \<Rightarrow> results p)"

definition rollTargetNumber ::
  "env \<Rightarrow> world \<Rightarrow> int \<Rightarrow> int \<Rightarrow> int \<Rightarrow> int \<Rightarrow> int \<Rightarrow> int \<Rightarrow> string \<Rightarrow> string option \<Rightarrow> bool
     \<Rightarrow> error + (DiceReturn option \<times> world)" where
  "rollTargetNumber e w tni d12 d10 d8 d6 d4 lbl rollingactor sendinchat =
     (let rollstring = formRoll d12 d10 d8 d6 d4 in
      if length rollstring = 0 then Inr (None, w)
      else
        (case evaluate (draw e) (drawn w) rollstring (CountSuccessesGT tni) of
           None \<Rightarrow> Inl RollFormulaError
         | Some (r, k) \<Rightarrow>
             (let succs = total r;
                  (hi, tiecount, one) = tally tni (first_results r) (0, 0, False);
                  flavorstring = flavorStringTN e succs tiecount (hi = 1) lbl;
                  tndata = \<lparr>successes = succs, ties = tiecount\<rparr>;
                  msg = \<lparr>isRoll = True, speaker = getMacroSpeaker e rollingactor,
                         flavor = flavorstring, rollType = ''TN'', label = Some lbl,
                         originalRoll = True, hasOne = one, mroll = r\<rparr>
              in Inr (Some \<lparr>roll = r, highest = hi, tnData = Some tndata, message = msg,
                            isSent = sendinchat\<rparr>,
                      \<lparr>drawn = k, chat = (if sendinchat then chat w @ [msg] else chat w)\<rparr>))))"

definition rollHighest ::
  "env \<Rightarrow> world \<Rightarrow> int \<Rightarrow> int \<Rightarrow> int \<Rightarrow> int \<Rightarrow> int \<Rightarrow> string \<Rightarrow> string option \<Rightarrow> bool
     \<Rightarrow> error + (DiceReturn option \<times> world)" where
  "rollHighest e w d12 d10 d8 d6 d4 lbl rollingactor sendinchat =
     (let rollstring = formRoll d12 d10 d8 d6 d4 in
      if length rollstring = 0 then Inr (None, w)
      else
        (case evaluate (draw e) (drawn w) rollstring KeepHighest of
           None \<Rightarrow> Inl RollFormulaError
         | Some (r, k) \<Rightarrow>
             (let flavorstring = flavorStringHighest e (total r) lbl;
                  one = list_ex (\<lambda>x. x = 1) (first_results r);
                  msg = \<lparr>isRoll = True, speaker = getMacroSpeaker e rollingactor,
                         flavor = flavorstring, rollType = ''HIGH'', label = Some lbl,
                         originalRoll = True, hasOne = one, mroll = r\<rparr>
              in Inr (Some \<lparr>roll = r, highest = total r, tnData = None, message = msg,
                            isSent = sendinchat\<rparr>,
                      \<lparr>drawn = k, chat = (if sendinchat then chat w @ [msg] else chat w)\<rparr>))))"


text \<open>
  \<^verbatim>\<open>copyDicePoolResult\<close>: the \<^verbatim>\<open>forEach\<close> appends each result's numeral and a comma.
\<close>

fun copy_loop :: "int list \<Rightarrow> string \<Rightarrow> string" where
  "copy_loop [] formula = formula"
| "copy_loop (x # xs) formula = copy_loop xs (formula @ toString x @ '','')"

definition copyDicePoolResult :: "roll \<Rightarrow> string" where
  "copyDicePoolResult r =
     (let formula = '''' in
      if length (poolterms r) > 0 then
        (let formula = copy_loop (results (hd (poolterms r))) formula
         in if length formula > 0 then butlast formula else formula)
      else formula)"

text \<open>
  \<^verbatim>\<open>roll.terms[0].terms[i] + ","\<close>: reading past the end of a JavaScript array gives
  \<^verbatim>\<open>undefined\<close>, which the concatenation spells out.
\<close>

definition term_at :: "string list \<Rightarrow> nat \<Rightarrow> string" where
  "term_at ts i = (if i < length ts then ts ! i else ''undefined'')"

text \<open>
  \<^verbatim>\<open>copyRerollHighestOne\<close>: the \<^verbatim>\<open>forEach((x, i) => ...)\<close> carries
  \<open>(onefound, formula)\<close>; \<open>i\<close> is the index of \<open>x\<close>.
\<close>

fun reroll_loop :: "string list \<Rightarrow> nat \<Rightarrow> int list \<Rightarrow> bool \<times> string \<Rightarrow> bool \<times> string" where
  "reroll_loop ts i [] acc = acc"
| "reroll_loop ts i (x # xs) (onefound, formula) =
     (if \<not> onefound \<and> x = 1
      then reroll_loop ts (Suc i) xs (True, formula @ term_at ts i @ '','')
      else reroll_loop ts (Suc i) xs (onefound, formula @ toString x @ '',''))"

definition copyRerollHighestOne :: "roll \<Rightarrow> string" where
  "copyRerollHighestOne r =
     (let onefound = False; formula = '''' in
      if length (poolterms r) > 0 then
        (let (onefound, formula) =
               reroll_loop (terms (hd (poolterms r))) 0 (results (hd (poolterms r)))
                 (onefound, formula)
         in if length formula > 0 then butlast formula else formula)
      else formula)"

text \<open>
  \<^verbatim>\<open>copyToRollTN\<close> and \<^verbatim>\<open>copyToRollHighest\<close>. A missing message is \<open>None\<close>; a
  \<^verbatim>\<open>return;\<close> is the result \<open>None\<close>. The hanging-attack flags that
  \<^verbatim>\<open>copyHangingAttackFlags\<close> copies onto the new message are not part of \<open>message\<close>
  here, so that call is left out.
\<close>

definition copy_label :: "env \<Rightarrow> bool \<Rightarrow> string \<Rightarrow> string \<Rightarrow> string" where
  "copy_label e rerollone kind lbl =
     (if rerollone then localize e ''urbanjungle.chatInfo.reroll''
      else localize e ''urbanjungle.chatInfo.copy'')
       @ '' '' @ localize e kind @ '': '' @ lbl"

definition copyToRollTN ::
  "env \<Rightarrow> world \<Rightarrow> int \<Rightarrow> message option \<Rightarrow> bool \<Rightarrow> bool
     \<Rightarrow> error + (DiceReturn option \<times> world)" where
  "copyToRollTN e w tni msg0 sendinchat rerollone =
     (case msg0 of
        None \<Rightarrow> Inr (None, w)
      | Some m \<Rightarrow>
          if \<not> isRoll m then Inr (None, w)
          else
            (let rollstring =
                   (if rerollone then copyRerollHighestOne (mroll m)
                    else copyDicePoolResult (mroll m)) in
             if length rollstring = 0 then Inr (None, w)
             else
               (case label m of
                  None \<Rightarrow> Inr (None, w)
                | Some lbl \<Rightarrow>
                    (case evaluate (draw e) (drawn w) rollstring (CountSuccessesGT tni) of
                       None \<Rightarrow> Inl RollFormulaError
                     | Some (r, k) \<Rightarrow>
                         (let succs = total r;
                              (hi, tiecount, one) = tally tni (first_results r) (0, 0, False);
                              flavorstring = flavorStringTN e succs tiecount (hi = 1)
                                (copy_label e rerollone ''urbanjungle.chatInfo.tn'' lbl);
                              tndata = \<lparr>successes = succs, ties = tiecount\<rparr>;
                              msg = \<lparr>isRoll = True, speaker = speaker m,
                                     flavor = flavorstring, rollType = ''TN'', label = Some lbl,
                                     originalRoll = False, hasOne = one, mroll = r\<rparr>
                          in Inr (Some \<lparr>roll = r, highest = hi, tnData = Some tndata,
                                        message = msg, isSent = sendinchat\<rparr>,
                                  \<lparr>drawn = k,
                                   chat = (if sendinchat then chat w @ [msg] else chat w)\<rparr>))))))"

definition copyToRollHighest ::
  "env \<Rightarrow> world \<Rightarrow> message option \<Rightarrow> bool \<Rightarrow> bool \<Rightarrow> error + (DiceReturn option \<times> world)" where
  "copyToRollHighest e w msg0 sendinchat rerollone =
     (case msg0 of
        None \<Rightarrow> Inr (None, w)
      | Some m \<Rightarrow>
          if \<not> isRoll m then Inr (None, w)
          else
            (let rollstring =
                   (if rerollone then copyRerollHighestOne (mroll m)
                    else copyDicePoolResult (mroll m)) in
             if length rollstring = 0 then Inr (None, w)
             else
               (case label m of
                  None \<Rightarrow> Inr (None, w)
                | Some lbl \<Rightarrow>
                    (case evaluate (draw e) (drawn w) rollstring KeepHighest of
                       None \<Rightarrow> Inl RollFormulaError
                     | Some (r, k) \<Rightarrow>
                         (let flavorstring = flavorStringHighest e (total r)
                                (copy_label e rerollone ''urbanjungle.chatInfo.high'' lbl);
                              one = list_ex (\<lambda>x. x = 1) (first_results r);
                              msg = \<lparr>isRoll = True, speaker = speaker m,
                                     flavor = flavorstring, rollType = ''HIGH'',
                                     label = Some lbl, originalRoll = False, hasOne = one,
                                     mroll = r\<rparr>
                          in Inr (Some \<lparr>roll = r, highest = total r, tnData = None,
                                        message = msg, isSent = sendinchat\<rparr>,
                                  \<lparr>drawn = k,
                                   chat = (if sendinchat then chat w @ [msg] else chat w)\<rparr>))))))"


section \<open>Combat: initiative groups, target numbers and turn order\<close>

text \<open>
  \<^verbatim>\<open>settings.initType\<close> is read three ways in the source: by truthiness, through
  \<^verbatim>\<open>parseInt\<close> and by \<^verbatim>\<open>=== 0\<close>, so it is kept as a JavaScript value that may be missing,
  a number or a string. \<^verbatim>\<open>parseInt\<close> of a string reads an optional sign and the longest
  run of digits after it (leading blanks and hexadecimal are not covered); \<open>None\<close> is
  \<^verbatim>\<open>NaN\<close>.
\<close>

datatype jsval = JUndefined | JNum int | JStr string

fun truthy :: "jsval \<Rightarrow> bool" where
  "truthy JUndefined = False"
| "truthy (JNum n) = (n \<noteq> 0)"
| "truthy (JStr s) = (s \<noteq> [])"

definition parseInt_string :: "string \<Rightarrow> int option" where
  "parseInt_string s =
     (let (neg, body) =
            (case s of
               [] \<Rightarrow> (False, s)
             | c # cs \<Rightarrow>
                 if c = CHR ''-'' then (True, cs)
                 else if c = CHR ''+'' then (False, cs) else (False, s));
          ds = takeWhile is_digit body
      in if ds = [] then None
         else Some (if neg then - int (nat_of_digits ds) else int (nat_of_digits ds)))"

fun parseInt :: "jsval \<Rightarrow> int option" where
  "parseInt JUndefined = None"
| "parseInt (JNum n) = Some n"
| "parseInt (JStr s) = parseInt_string s"

text \<open>
  A combatant as the combat code reads it; \<open>cid\<close> is its \<^verbatim>\<open>id\<close>. \<open>disposition\<close> is
  \<^verbatim>\<open>token.data?.disposition\<close>, \<open>tokenActor\<close> is \<^verbatim>\<open>token.actor\<close>, \<open>posx\<close> and \<open>posy\<close> stand for
  the position data handed to the host's \<^verbatim>\<open>measureDistance\<close>. \<open>initiative\<close> is \<open>None\<close>
  when the stored value is not numeric. The settings are the combat tracker's settings
  object; a missing \<^verbatim>\<open>manualTN\<close> is \<open>None\<close>.
\<close>

record actor =
  hasPlayerOwner :: bool

record token =
  name :: string
  disposition :: "int option"
  tokenActor :: "actor option"
  posx :: int
  posy :: int

record combatant =
  cid :: string
  actor :: "actor option"
  token :: "token option"
  tokenId :: string
  isOwner :: bool
  initiative :: "rat option"
  initiativeResult :: "string option"

record settings =
  sideBased :: bool
  initType :: jsval
  skipDefeated :: bool
  manualTN :: "int option"

text \<open>The host constant \<^verbatim>\<open>CONST.TOKEN_DISPOSITIONS.FRIENDLY\<close>.\<close>

definition FRIENDLY :: int where
  "FRIENDLY = 1"

definition getInitiativeGroup :: "combatant \<Rightarrow> settings \<Rightarrow> int" where
  "getInitiativeGroup c st =
     (case actor c of
        None \<Rightarrow> - 1
      | Some a \<Rightarrow>
          (case token c of
             None \<Rightarrow> - 1
           | Some t \<Rightarrow>
               if \<not> truthy (initType st) then - 1
               else
                 (case parseInt (initType st) of
                    None \<Rightarrow> - 1
                  | Some ity \<Rightarrow>
                      if ity = 0 \<or> ity = 1 then
                        (let side = (if hasPlayerOwner a then 1 else (0::int)) in
                         if ity = 0 then (if side = 1 then 2 else 1)
                         else (if side = 0 then 2 else 1))
                      else if ity = 2 \<or> ity = 3 then
                        (let side = (if hasPlayerOwner a \<or> disposition t = Some FRIENDLY
                                     then 1 else (0::int)) in
                         if ity = 2 then (if side = 1 then 2 else 1)
                         else (if side = 0 then 2 else 1))
                      else if ity = 4 \<or> ity = 5 then
                        (let side = (if hasPlayerOwner a then 1
                                     else if disposition t = Some FRIENDLY then 2 else (0::int)) in
                         if ity = 4 then (if side = 1 then 3 else if side = 2 then 2 else 1)
                         else (if (if side = side then 1 else (0::int)) = 0 then 3
                               else if side = 1 then 2 else 1))
                      else - 1)))"

text \<open>
  The last line of case 5 is \<^verbatim>\<open>side == side == 0 ? 3 : (side == 1 ? 2 : 1)\<close>:
  \<^verbatim>\<open>==\<close> associates to the left, so the test compares the boolean \<^verbatim>\<open>side == side\<close>,
  as a number, with 0.
\<close>

definition getDistanceTN :: "rat \<Rightarrow> int" where
  "getDistanceTN distance =
     (if distance \<le> 4 then 2
      else if distance \<le> 12 then 3
      else if distance \<le> 36 then 4
      else if distance \<le> 100 then 5
      else 6)"

text \<open>
  \<^verbatim>\<open>getDistanceToClosestOther\<close>; \<open>measureDistance\<close> is the host's
  \<^verbatim>\<open>canvas.grid.measureDistance\<close>.
\<close>

fun closest_loop :: "(token \<Rightarrow> token \<Rightarrow> rat) \<Rightarrow> token \<Rightarrow> combatant list \<Rightarrow> rat \<Rightarrow> rat" where
  "closest_loop measureDistance t [] distance = distance"
| "closest_loop measureDistance t (x # xs) distance =
     (case token x of
        None \<Rightarrow> closest_loop measureDistance t xs distance
      | Some tx \<Rightarrow>
          (let dist = measureDistance t tx in
           closest_loop measureDistance t xs (if distance > dist then dist else distance)))"

definition getDistanceToClosestOther ::
  "(token \<Rightarrow> token \<Rightarrow> rat) \<Rightarrow> combatant \<Rightarrow> combatant list \<Rightarrow> rat" where
  "getDistanceToClosestOther measureDistance c othercombatants =
     (let distance = 10000 in
      case token c of
        None \<Rightarrow> distance
      | Some t \<Rightarrow> closest_loop measureDistance t othercombatants distance)"

text \<open>
  The two filters of \<^verbatim>\<open>getInitiativeTN\<close>. \<^verbatim>\<open>x?.actor?.hasPlayerOwner\<close> is
  \<^verbatim>\<open>undefined\<close> for a combatant without an actor: under \<^verbatim>\<open>!==\<close> it differs from either
  boolean, under \<^verbatim>\<open>||\<close> it counts as false.
\<close>

definition otherSide :: "actor \<Rightarrow> token \<Rightarrow> jsval \<Rightarrow> combatant list \<Rightarrow> combatant list" where
  "otherSide a t ity allcombatants =
     (if ity = JNum 0 \<or> ity = JNum 1 then
        (let playerOwnerComparison = hasPlayerOwner a in
         filter (\<lambda>x. map_option hasPlayerOwner (actor x) \<noteq> Some playerOwnerComparison)
           allcombatants)
      else
        (let playerOwnerComparison = (hasPlayerOwner a \<or> disposition t = Some FRIENDLY) in
         filter (\<lambda>x. ((case actor x of None \<Rightarrow> False | Some xa \<Rightarrow> hasPlayerOwner xa)
                        \<or> (case token x of None \<Rightarrow> False
                            | Some xt \<Rightarrow> disposition xt = Some FRIENDLY))
                      \<noteq> playerOwnerComparison)
           allcombatants))"

definition derivedTN ::
  "(token \<Rightarrow> token \<Rightarrow> rat) \<Rightarrow> combatant \<Rightarrow> combatant list option \<Rightarrow> settings \<Rightarrow> int" where
  "derivedTN measureDistance c allcombatants st =
     (case actor c of
        None \<Rightarrow> 2
      | Some a \<Rightarrow>
          (case token c of
             None \<Rightarrow> 2
           | Some t \<Rightarrow>
               if \<not> truthy (initType st) then 2
               else
                 (case allcombatants of
                    None \<Rightarrow> 2
                  | Some cs \<Rightarrow>
                      getDistanceTN
                        (getDistanceToClosestOther measureDistance c
                           (otherSide a t (initType st) cs)))))"

text \<open>
  \<^verbatim>\<open>getInitiativeTN\<close>: the manual target number when it is set and positive, otherwise
  the \<^verbatim>\<open>else if\<close> and \<^verbatim>\<open>else\<close> branches, which are \<open>derivedTN\<close>.
\<close>

definition getInitiativeTN ::
  "(token \<Rightarrow> token \<Rightarrow> rat) \<Rightarrow> combatant \<Rightarrow> combatant list option \<Rightarrow> settings \<Rightarrow> int" where
  "getInitiativeTN measureDistance c allcombatants st =
     (case manualTN st of
        None \<Rightarrow> derivedTN measureDistance c allcombatants st
      | Some n \<Rightarrow>
          if n \<noteq> 0 \<and> n > 0 then n
          else derivedTN measureDistance c allcombatants st)"


text \<open>
  \<^verbatim>\<open>_sortCombatants\<close>. A JavaScript number that may be \<^verbatim>\<open>NaN\<close> is a \<open>jsnum\<close>.
  \<^verbatim>\<open>a.tokenId - b.tokenId\<close> subtracts two document ids, which are strings of letters and
  digits: \<open>toNumber_id\<close> is the conversion the subtraction applies to such a string (the
  empty string is 0, a string of decimal digits is its value, any other string is
  \<^verbatim>\<open>NaN\<close>; exponent and radix-prefixed spellings are not covered). \<^verbatim>\<open>localeCompare\<close> is
  the host's collation; the order of the character codes stands for it here.
\<close>

datatype jsnum = NaN | Num rat

definition toNumber_id :: "string \<Rightarrow> jsnum" where
  "toNumber_id s =
     (if s = [] then Num 0
      else if list_all is_digit s then Num (of_nat (nat_of_digits s))
      else NaN)"

fun js_minus :: "jsnum \<Rightarrow> jsnum \<Rightarrow> jsnum" where
  "js_minus (Num x) (Num y) = Num (x - y)"
| "js_minus _ _ = NaN"

definition localeCompare :: "string \<Rightarrow> string \<Rightarrow> int" where
  "localeCompare a b = (if a = b then 0 else if a < b then - 1 else 1)"

definition sortCombatants :: "combatant \<Rightarrow> combatant \<Rightarrow> jsnum" where
  "sortCombatants a b =
     (let ia = (case initiative a of Some v \<Rightarrow> v | None \<Rightarrow> - 9999);
          ib = (case initiative b of Some v \<Rightarrow> v | None \<Rightarrow> - 9999);
          ci = ib - ia
      in if ci \<noteq> 0 then Num ci
         else
           (let apc = (case token a of None \<Rightarrow> False
                       | Some t \<Rightarrow> (case tokenActor t of None \<Rightarrow> False
                                    | Some ac \<Rightarrow> hasPlayerOwner ac));
                bpc = (case token b of None \<Rightarrow> False
                       | Some t \<Rightarrow> (case tokenActor t of None \<Rightarrow> False
                                    | Some ac \<Rightarrow> hasPlayerOwner ac));
                cpc = (if bpc then 1 else 0) - (if apc then 1 else (0::int))
            in if cpc \<noteq> 0 then Num (of_int cpc)
               else
                 (let an = (case token a of None \<Rightarrow> '''' | Some t \<Rightarrow> name t);
                      bn = (case token b of None \<Rightarrow> '''' | Some t \<Rightarrow> name t);
                      cn = localeCompare an bn
                  in if cn \<noteq> 0 then Num (of_int cn)
                     else js_minus (toNumber_id (tokenId a)) (toNumber_id (tokenId b)))))"

text \<open>
  The host orders the turns with \<^verbatim>\<open>combatants.sort(this._sortCombatants)\<close>. The sort is
  stable, puts \<open>x\<close> behind \<open>y\<close> only when the comparator's value for \<open>(x, y)\<close> is
  positive, and takes \<^verbatim>\<open>NaN\<close> as 0.
\<close>

definition cmp_positive :: "jsnum \<Rightarrow> bool" where
  "cmp_positive v = (case v of NaN \<Rightarrow> False | Num r \<Rightarrow> r > 0)"

fun insert_by :: "('a \<Rightarrow> 'a \<Rightarrow> jsnum) \<Rightarrow> 'a \<Rightarrow> 'a list \<Rightarrow> 'a list" where
  "insert_by cmp x [] = [x]"
| "insert_by cmp x (y # ys) =
     (if cmp_positive (cmp x y) then y # insert_by cmp x ys else x # y # ys)"

definition js_sort :: "('a \<Rightarrow> 'a \<Rightarrow> jsnum) \<Rightarrow> 'a list \<Rightarrow> 'a list" where
  "js_sort cmp xs = foldr (insert_by cmp) xs []"

definition setupTurns :: "combatant list \<Rightarrow> combatant list" where
  "setupTurns cs = js_sort sortCombatants cs"

text \<open>
  \<^verbatim>\<open>rollInitiative\<close>. \<open>initiativeRoll\<close> stands for the actor's
  \<^verbatim>\<open>initiativeRoll(2, tn)\<close> of \<^verbatim>\<open>actor.js\<close> and \<open>getInitiativeRoll\<close> for the host's
  fallback roll; \<^verbatim>\<open>roll.dice\<close> is \<open>dice\<close>, the totals of the dice of the roll. The
  updates are what is stored on the combatants. Of the chat message the loop builds for
  each combatant only its reads of the token are kept: the flavor line reads
  \<^verbatim>\<open>combatant.token.name\<close> before the update is pushed, and the message data read
  \<^verbatim>\<open>combatant.token.hidden\<close> and \<^verbatim>\<open>combatant.token.id\<close>. For a combatant without a token
  the first of these reads throws a \<^verbatim>\<open>TypeError\<close>; the exception leaves the loop and
  \<^verbatim>\<open>rollInitiative\<close>, and nothing is stored.
\<close>

datatype combat_error = TypeError

definition empty_message :: message where
  "empty_message =
     \<lparr>isRoll = False, speaker = '''', flavor = '''', rollType = '''', label = None,
      originalRoll = False, hasOne = False,
      mroll = \<lparr>poolterms = [], total = 0\<rparr>\<rparr>"

definition getInitiativeRollIronclaw ::
  "(actor \<Rightarrow> int \<Rightarrow> DiceReturn) \<Rightarrow> (combatant \<Rightarrow> roll) \<Rightarrow> combatant \<Rightarrow> int \<Rightarrow> DiceReturn" where
  "getInitiativeRollIronclaw initiativeRoll getInitiativeRoll c tn =
     (case actor c of
        Some a \<Rightarrow> initiativeRoll a tn
      | None \<Rightarrow>
          (let r = getInitiativeRoll c in
           \<lparr>roll = r, highest = total r, tnData = None, message = empty_message,
            isSent = False\<rparr>))"

fun tiebreak_loop :: "int \<Rightarrow> int list \<Rightarrow> bool \<times> int \<Rightarrow> bool \<times> int" where
  "tiebreak_loop hi [] acc = acc"
| "tiebreak_loop hi (x # xs) (skipped, decimals) =
     (if \<not> skipped \<and> x = hi then tiebreak_loop hi xs (True, decimals)
      else tiebreak_loop hi xs (skipped, if decimals < x then x else decimals))"

definition initResultOf :: "DiceReturn \<Rightarrow> string" where
  "initResultOf initRoll =
     (let initResult = '''' in
      case tnData initRoll of
        None \<Rightarrow> initResult
      | Some tn \<Rightarrow>
          if successes tn > 0 then toString (successes tn)
          else if ties tn \<noteq> 0 then ''T''
          else if highest initRoll = 1 then ''B'' else ''F'')"

record update =
  uid :: string
  uinitiative :: rat
  uinitiativeResult :: string

definition rollInitiative_step ::
  "(token \<Rightarrow> token \<Rightarrow> rat) \<Rightarrow> (actor \<Rightarrow> int \<Rightarrow> DiceReturn) \<Rightarrow> (combatant \<Rightarrow> roll)
     \<Rightarrow> (roll \<Rightarrow> int list) \<Rightarrow> settings \<Rightarrow> combatant list \<Rightarrow> combatant
     \<Rightarrow> combat_error + update" where
  "rollInitiative_step measureDistance initiativeRoll getInitiativeRoll dice st combatants c =
     (let tn = getInitiativeTN measureDistance c (Some combatants) st;
          initRoll = getInitiativeRollIronclaw initiativeRoll getInitiativeRoll c tn;
          ini =
            (if sideBased st then of_int (getInitiativeGroup c st)
             else
               (let (skipped, decimals) =
                      tiebreak_loop (highest initRoll) (dice (roll initRoll)) (False, 0)
                in of_int (highest initRoll) + of_int decimals / 20))
      in case token c of
           None \<Rightarrow> Inl TypeError
         | Some t \<Rightarrow>
             (let initResult = initResultOf initRoll
              in Inr \<lparr>uid = cid c, uinitiative = ini, uinitiativeResult = initResult\<rparr>))"

fun rollInitiative_loop ::
  "(token \<Rightarrow> token \<Rightarrow> rat) \<Rightarrow> (actor \<Rightarrow> int \<Rightarrow> DiceReturn) \<Rightarrow> (combatant \<Rightarrow> roll)
     \<Rightarrow> (roll \<Rightarrow> int list) \<Rightarrow> settings \<Rightarrow> combatant list \<Rightarrow> string list
     \<Rightarrow> combat_error + update list" where
  "rollInitiative_loop measureDistance initiativeRoll getInitiativeRoll dice st combatants [] =
     Inr []"
| "rollInitiative_loop measureDistance initiativeRoll getInitiativeRoll dice st combatants (i # ids) =
     (case find (\<lambda>c. cid c = i) combatants of
        None \<Rightarrow>
          rollInitiative_loop measureDistance initiativeRoll getInitiativeRoll dice st combatants ids
      | Some c \<Rightarrow>
          if \<not> isOwner c then
            rollInitiative_loop measureDistance initiativeRoll getInitiativeRoll dice st combatants ids
          else
            (case rollInitiative_step measureDistance initiativeRoll getInitiativeRoll dice st
                    combatants c of
               Inl err \<Rightarrow> Inl err
             | Inr u \<Rightarrow>
                 (case rollInitiative_loop measureDistance initiativeRoll getInitiativeRoll dice st
                         combatants ids of
                    Inl err \<Rightarrow> Inl err
                  | Inr updates \<Rightarrow> Inr (u # updates))))"

text \<open>The host's \<^verbatim>\<open>updateEmbeddedDocuments\<close>: each update overwrites its combatant's fields.\<close>

fun apply_update :: "update \<Rightarrow> combatant list \<Rightarrow> combatant list" where
  "apply_update u [] = []"
| "apply_update u (c # cs) =
     (if cid c = uid u
      then c\<lparr>initiative := Some (uinitiative u), initiativeResult := Some (uinitiativeResult u)\<rparr> # cs
      else c # apply_update u cs)"

definition rollInitiative ::
  "(token \<Rightarrow> token \<Rightarrow> rat) \<Rightarrow> (actor \<Rightarrow> int \<Rightarrow> DiceReturn) \<Rightarrow> (combatant \<Rightarrow> roll)
     \<Rightarrow> (roll \<Rightarrow> int list) \<Rightarrow> settings \<Rightarrow> combatant list \<Rightarrow> string list
     \<Rightarrow> combat_error + combatant list" where
  "rollInitiative measureDistance initiativeRoll getInitiativeRoll dice st combatants ids =
     (case rollInitiative_loop measureDistance initiativeRoll getInitiativeRoll dice st combatants
             ids of
        Inl err \<Rightarrow> Inl err
      | Inr updates \<Rightarrow>
          if length updates = 0 then Inr combatants
          else Inr (fold apply_update updates combatants))"


section \<open>Condition bookkeeping\<close>

text \<open>
  A catalog entry \<^verbatim>\<open>{id, label, icon}\<close> is a \<open>condition\<close>; an active effect on an actor
  has the document id the host gave it and its \<^verbatim>\<open>flags.core.statusId\<close>, which may be
  missing. The target of an operation is an actor, a token (whose actor may be missing)
  or nothing.
\<close>

record condition =
  condId :: string
  condLabel :: string
  condIcon :: string

record effect =
  effectId :: nat
  statusId :: "string option"
  effectLabel :: string
  effectIcon :: string

record actorDoc =
  effects :: "effect list"

datatype target = NoTarget | ActorTarget actorDoc | TokenTarget "actorDoc option"

text \<open>A \<^verbatim>\<open>String[] | String\<close> argument.\<close>

datatype conditions = One string | Many "string list"

definition conditionList :: "condition list" where
  "conditionList =
     [\<lparr>condId = ''focused'', condLabel = ''urbanjungle.effect.status.focused'',
       condIcon = ''icons/svg/upgrade.svg''\<rparr>,
      \<lparr>condId = ''guarding'', condLabel = ''urbanjungle.effect.status.guarding'',
       condIcon = ''icons/svg/shield.svg''\<rparr>,
      \<lparr>condId = ''reeling'', condLabel = ''urbanjungle.effect.status.reeling'',
       condIcon = ''icons/svg/lightning.svg''\<rparr>,
      \<lparr>condId = ''hurt'', condLabel = ''urbanjungle.effect.status.hurt'',
       condIcon = ''icons/svg/acid.svg''\<rparr>,
      \<lparr>condId = ''afraid'', condLabel = ''urbanjungle.effect.status.afraid'',
       condIcon = ''systems/urbanjungle/icons/status/afraid.svg''\<rparr>,
      \<lparr>condId = ''injured'', condLabel = ''urbanjungle.effect.status.injured'',
       condIcon = ''icons/svg/blood.svg''\<rparr>,
      \<lparr>condId = ''dying'', condLabel = ''urbanjungle.effect.status.dying'',
       condIcon = ''systems/urbanjungle/icons/status/dying.svg''\<rparr>,
      \<lparr>condId = ''dead'', condLabel = ''urbanjungle.effect.status.dead'',
       condIcon = ''icons/svg/skull.svg''\<rparr>,
      \<lparr>condId = ''overkilled'', condLabel = ''urbanjungle.effect.status.overkilled'',
       condIcon = ''systems/urbanjungle/icons/status/overkilled.svg''\<rparr>,
      \<lparr>condId = ''asleep'', condLabel = ''urbanjungle.effect.status.asleep'',
       condIcon = ''icons/svg/sleep.svg''\<rparr>,
      \<lparr>condId = ''unconscious'', condLabel = ''urbanjungle.effect.status.unconscious'',
       condIcon = ''icons/svg/unconscious.svg''\<rparr>,
      \<lparr>condId = ''burdened'', condLabel = ''urbanjungle.effect.status.burdened'',
       condIcon = ''systems/urbanjungle/icons/status/burdened.svg''\<rparr>,
      \<lparr>condId = ''over-burdened'', condLabel = ''urbanjungle.effect.status.over-burdened'',
       condIcon = ''systems/urbanjungle/icons/status/overburdened.svg''\<rparr>,
      \<lparr>condId = ''cannotmove'', condLabel = ''urbanjungle.effect.status.cannotmove'',
       condIcon = ''systems/urbanjungle/icons/status/cantmove.svg''\<rparr>,
      \<lparr>condId = ''fatigued'', condLabel = ''urbanjungle.effect.status.fatigued'',
       condIcon = ''icons/svg/degen.svg''\<rparr>,
      \<lparr>condId = ''sick'', condLabel = ''urbanjungle.effect.status.sick'',
       condIcon = ''icons/svg/poison.svg''\<rparr>,
      \<lparr>condId = ''confused'', condLabel = ''urbanjungle.effect.status.confused'',
       condIcon = ''icons/svg/daze.svg''\<rparr>,
      \<lparr>condId = ''terrified'', condLabel = ''urbanjungle.effect.status.terrified'',
       condIcon = ''systems/urbanjungle/icons/status/terrified.svg''\<rparr>,
      \<lparr>condId = ''enraged'', condLabel = ''urbanjungle.effect.status.enraged'',
       condIcon = ''icons/svg/explosion.svg''\<rparr>,
      \<lparr>condId = ''knockdown'', condLabel = ''urbanjungle.effect.status.knockdown'',
       condIcon = ''icons/svg/falling.svg''\<rparr>,
      \<lparr>condId = ''berserk'', condLabel = ''urbanjungle.effect.status.berserk'',
       condIcon = ''icons/svg/hazard.svg''\<rparr>,
      \<lparr>condId = ''blinded'', condLabel = ''urbanjungle.effect.status.blinded'',
       condIcon = ''icons/svg/blind.svg''\<rparr>,
      \<lparr>condId = ''silenced'', condLabel = ''urbanjungle.effect.status.silenced'',
       condIcon = ''icons/svg/silenced.svg''\<rparr>,
      \<lparr>condId = ''fulltilt'', condLabel = ''urbanjungle.effect.status.fulltilt'',
       condIcon = ''icons/svg/up.svg''\<rparr>,
      \<lparr>condId = ''slowed'', condLabel = ''urbanjungle.effect.status.slowed'',
       condIcon = ''icons/svg/down.svg''\<rparr>,
      \<lparr>condId = ''immobilized'', condLabel = ''urbanjungle.effect.status.immobilized'',
       condIcon = ''icons/svg/mountain.svg''\<rparr>,
      \<lparr>condId = ''half-buried'', condLabel = ''urbanjungle.effect.status.half-buried'',
       condIcon = ''icons/svg/ruins.svg''\<rparr>,
      \<lparr>condId = ''onfire'', condLabel = ''urbanjungle.effect.status.onfire'',
       condIcon = ''icons/svg/fire.svg''\<rparr>,
      \<lparr>condId = ''mesmerized'', condLabel = ''urbanjungle.effect.status.mesmerized'',
       condIcon = ''icons/svg/ice-aura.svg''\<rparr>,
      \<lparr>condId = ''marionette'', condLabel = ''urbanjungle.effect.status.marionette'',
       condIcon = ''icons/svg/paralysis.svg''\<rparr>,
      \<lparr>condId = ''controlled'', condLabel = ''urbanjungle.effect.status.controlled'',
       condIcon = ''icons/svg/statue.svg''\<rparr>,
      \<lparr>condId = ''allfours'', condLabel = ''urbanjungle.effect.status.allfours'',
       condIcon = ''icons/svg/pawprint.svg''\<rparr>,
      \<lparr>condId = ''flying'', condLabel = ''urbanjungle.effect.status.flying'',
       condIcon = ''icons/svg/wing.svg''\<rparr>,
      \<lparr>condId = ''grappled'', condLabel = ''urbanjungle.effect.status.grappled'',
       condIcon = ''icons/svg/net.svg''\<rparr>,
      \<lparr>condId = ''hiding'', condLabel = ''urbanjungle.effect.status.hiding'',
       condIcon = ''icons/svg/mystery-man.svg''\<rparr>,
      \<lparr>condId = ''misc-a'', condLabel = ''urbanjungle.effect.status.misc-a'',
       condIcon = ''icons/svg/eye.svg''\<rparr>,
      \<lparr>condId = ''misc-b'', condLabel = ''urbanjungle.effect.status.misc-b'',
       condIcon = ''icons/svg/clockwork.svg''\<rparr>,
      \<lparr>condId = ''misc-c'', condLabel = ''urbanjungle.effect.status.misc-c'',
       condIcon = ''icons/svg/castle.svg''\<rparr>,
      \<lparr>condId = ''misc-d'', condLabel = ''urbanjungle.effect.status.misc-d'',
       condIcon = ''icons/svg/book.svg''\<rparr>,
      \<lparr>condId = ''misc-e'', condLabel = ''urbanjungle.effect.status.misc-e'',
       condIcon = ''icons/svg/coins.svg''\<rparr>,
      \<lparr>condId = ''misc-f'', condLabel = ''urbanjungle.effect.status.misc-f'',
       condIcon = ''icons/svg/sound.svg''\<rparr>]"

definition cubList :: "(string \<times> string) list" where
  "cubList =
     [(''focused'', ''Focused''), (''guarding'', ''Guarding''), (''reeling'', ''Reeling''),
      (''hurt'', ''Hurt''), (''afraid'', ''Afraid''), (''injured'', ''Injured''),
      (''dying'', ''Dying''), (''dead'', ''Dead''), (''overkilled'', ''Overkilled''),
      (''asleep'', ''Asleep''), (''unconscious'', ''Unconscious''),
      (''burdened'', ''Burdened''), (''over-burdened'', ''Over-Burdened''),
      (''cannotmove'', ''Cannot Move''), (''fatigued'', ''Fatigued''), (''sick'', ''Sick''),
      (''confused'', ''Confused''), (''terrified'', ''Terrified''),
      (''enraged'', ''Enraged''), (''knockdown'', ''Knockdown''), (''berserk'', ''Berserk''),
      (''blinded'', ''Blinded''), (''silenced'', ''Silenced''), (''fulltilt'', ''Full Tilt''),
      (''slowed'', ''Slowed''), (''immobilized'', ''Immobilized''),
      (''half-buried'', ''Half-Buried''), (''onfire'', ''On Fire''),
      (''mesmerized'', ''Mesmerized''), (''marionette'', ''Marionette''),
      (''controlled'', ''Controlled''), (''allfours'', ''All Fours''),
      (''flying'', ''Flying''), (''grappled'', ''Grappled''), (''hiding'', ''Hiding''),
      (''misc-a'', ''Misc-A''), (''misc-b'', ''Misc-B''), (''misc-c'', ''Misc-C''),
      (''misc-d'', ''Misc-D''), (''misc-e'', ''Misc-E''), (''misc-f'', ''Misc-F'')]"

fun asArray :: "conditions \<Rightarrow> string list" where
  "asArray (One c) = [c]"
| "asArray (Many cs) = cs"

fun falsy :: "conditions \<Rightarrow> bool" where
  "falsy (One c) = (c = [])"
| "falsy (Many cs) = False"

definition convertToCub :: "conditions \<Rightarrow> string list" where
  "convertToCub cs = concat (map (\<lambda>c. case map_of cubList c of None \<Rightarrow> [] | Some n \<Rightarrow> [n]) (asArray cs))"

text \<open>
  \<^verbatim>\<open>getMatchedConditions\<close> on an array, the only way the operations below call it.
\<close>

definition getMatchedConditions :: "string list \<Rightarrow> condition list" where
  "getMatchedConditions cs = filter (\<lambda>cond. condId cond \<in> set cs) conditionList"

fun getTargetActor :: "target \<Rightarrow> actorDoc option" where
  "getTargetActor NoTarget = None"
| "getTargetActor (ActorTarget a) = Some a"
| "getTargetActor (TokenTarget a) = a"

text \<open>
  The data of an effect to create: \<^verbatim>\<open>prepareEffects\<close> localises the label, sets
  \<^verbatim>\<open>flags.core.statusId\<close> to the catalog id and drops the id.
\<close>

record effectData =
  dataLabel :: string
  dataIcon :: string
  dataStatusId :: string

definition prepareEffects :: "(string \<Rightarrow> string) \<Rightarrow> condition list \<Rightarrow> effectData list" where
  "prepareEffects loc conds =
     map (\<lambda>c. \<lparr>dataLabel = loc (condLabel c), dataIcon = condIcon c, dataStatusId = condId c\<rparr>)
       conds"

text \<open>
  \<open>useCUB\<close> is \<^verbatim>\<open>game.urbanjungle.useCUBConditions\<close> and \<open>cubHas\<close> the external provider's
  \<^verbatim>\<open>game.cub.hasCondition\<close>.
\<close>

definition hasConditionsIronclaw ::
  "bool \<Rightarrow> (string list \<Rightarrow> target \<Rightarrow> bool) \<Rightarrow> conditions \<Rightarrow> target \<Rightarrow> bool" where
  "hasConditionsIronclaw useCUB cubHas cs tg =
     (if falsy cs \<or> tg = NoTarget then False
      else if useCUB then cubHas (convertToCub cs) tg
      else
        (case getTargetActor tg of
           None \<Rightarrow> False
         | Some a \<Rightarrow>
             list_ex (\<lambda>x. case statusId x of None \<Rightarrow> False | Some s \<Rightarrow> s \<in> set (asArray cs))
               (effects a)))"

text \<open>
  What an operation writes: a call to the external provider, or a creation or deletion of
  embedded effects on the actor. \<open>None\<close> is no write. The wait for \<^verbatim>\<open>game.ready\<close> is not
  modelled.
\<close>

datatype docwrite =
    CubAddCondition "string list"
  | CubRemoveCondition "string list"
  | CreateEmbedded "effectData list"
  | DeleteEmbedded "nat list"

definition addConditionsIronclaw ::
  "bool \<Rightarrow> (string list \<Rightarrow> target \<Rightarrow> bool) \<Rightarrow> (string \<Rightarrow> string) \<Rightarrow> conditions \<Rightarrow> target
     \<Rightarrow> docwrite option" where
  "addConditionsIronclaw useCUB cubHas loc cs tg =
     (if useCUB then Some (CubAddCondition (convertToCub cs))
      else
        (case getTargetActor tg of
           None \<Rightarrow> None
         | Some a \<Rightarrow>
             (let usedconditions = asArray cs;
                  usedconditions =
                    (if hasConditionsIronclaw useCUB cubHas cs tg then
                       (let existingeffects = effects a in
                        filter (\<lambda>x. list_ex (\<lambda>y. statusId y = Some x) existingeffects = False)
                          usedconditions)
                     else usedconditions);
                  effs = prepareEffects loc (getMatchedConditions usedconditions)
              in if length effs > 0 then Some (CreateEmbedded effs) else None)))"

definition removeConditionsIronclaw ::
  "bool \<Rightarrow> (string list \<Rightarrow> target \<Rightarrow> bool) \<Rightarrow> conditions \<Rightarrow> target \<Rightarrow> bool \<Rightarrow> docwrite option" where
  "removeConditionsIronclaw useCUB cubHas cs tg checkfirst =
     (if useCUB then
        (if checkfirst = False \<or> hasConditionsIronclaw useCUB cubHas cs tg
         then Some (CubRemoveCondition (convertToCub cs)) else None)
      else
        (case getTargetActor tg of
           None \<Rightarrow> None
         | Some a \<Rightarrow>
             (let removals =
                    map effectId
                      (filter (\<lambda>v. case statusId v of None \<Rightarrow> False
                                     | Some s \<Rightarrow> s \<in> set (asArray cs))
                         (effects a))
              in if length removals > 0 then Some (DeleteEmbedded removals) else None)))"

text \<open>
  The host's \<^verbatim>\<open>createEmbeddedDocuments\<close> and \<^verbatim>\<open>deleteEmbeddedDocuments\<close> on an actor:
  created effects get unused document ids and the status id of their data. Calls to the
  external provider change nothing the actor document shows here.
\<close>

definition next_id :: "effect list \<Rightarrow> nat" where
  "next_id es = Suc (fold max (map effectId es) 0)"

fun create_effects :: "nat \<Rightarrow> effectData list \<Rightarrow> effect list" where
  "create_effects n [] = []"
| "create_effects n (d # ds) =
     \<lparr>effectId = n, statusId = Some (dataStatusId d), effectLabel = dataLabel d,
      effectIcon = dataIcon d\<rparr> # create_effects (Suc n) ds"

fun apply_write :: "docwrite option \<Rightarrow> actorDoc \<Rightarrow> actorDoc" where
  "apply_write (Some (CreateEmbedded ds)) a =
     a\<lparr>effects := effects a @ create_effects (next_id (effects a)) ds\<rparr>"
| "apply_write (Some (DeleteEmbedded ids)) a =
     a\<lparr>effects := filter (\<lambda>e. effectId e \<notin> set ids) (effects a)\<rparr>"
| "apply_write _ a = a"


section \<open>Sample surroundings for concrete evaluations\<close>

definition returned :: "error + ('a option \<times> world) \<Rightarrow> 'a option" where
  "returned x = (case x of Inr (Some r, w') \<Rightarrow> Some r | _ \<Rightarrow> None)"


definition fixed_draws :: "int list \<Rightarrow> dice_source" where
  "fixed_draws fs = (\<lambda>k n. if k < length fs then fs ! k else 1)"

definition sample_env :: "int list \<Rightarrow> env" where
  "sample_env fs =
     \<lparr>draw = fixed_draws fs,
      getMacroSpeaker = (\<lambda>a. case a of None \<Rightarrow> ''Gamemaster'' | Some n \<Rightarrow> n),
      localize = (\<lambda>k. k),
      format = (\<lambda>k args. k @ concat (map (\<lambda>(a, v). '' '' @ a @ ''='' @ v) args)),
      info = \<lparr>resultFontSize = ''1.8em'',
               resultColors = \<lparr>success = ''green'', tie = ''darkgoldenrod'', normal = ''black'',
                                failure = ''black'', botch = ''red''\<rparr>\<rparr>\<rparr>"



definition sample_roll :: "string list \<Rightarrow> int list \<Rightarrow> int \<Rightarrow> roll" where
  "sample_roll ts rs tot = \<lparr>poolterms = [\<lparr>terms = ts, results = rs\<rparr>], total = tot\<rparr>"

definition sample_message :: "roll \<Rightarrow> bool \<Rightarrow> message" where
  "sample_message r orig =
     \<lparr>isRoll = True, speaker = ''Gamemaster'', flavor = '''', rollType = ''HIGH'',
      label = Some ''Climb'', originalRoll = orig,
      hasOne = list_ex (\<lambda>x. x = 1) (first_results r), mroll = r\<rparr>"

text \<open>
  The display code chosen in the order of the flavor text of \<^verbatim>\<open>flavorStringTN\<close>: success,
  then botch, then tie, then failure. It is compared below with \<open>initResultOf\<close>, the
  order \<^verbatim>\<open>rollInitiative\<close> uses.
\<close>

definition initResult_flavor_order :: "DiceReturn \<Rightarrow> string" where
  "initResult_flavor_order initRoll =
     (case tnData initRoll of
        None \<Rightarrow> ''''
      | Some tn \<Rightarrow>
          if successes tn > 0 then toString (successes tn)
          else if highest initRoll = 1 then ''B''
          else if ties tn > 0 then ''T'' else ''F'')"

definition sample_token :: "string \<Rightarrow> int option \<Rightarrow> bool \<Rightarrow> int \<Rightarrow> int \<Rightarrow> token" where
  "sample_token n disp owned x y =
     \<lparr>name = n, disposition = disp, tokenActor = Some \<lparr>hasPlayerOwner = owned\<rparr>,
      posx = x, posy = y\<rparr>"

definition sample_combatant ::
  "string \<Rightarrow> string \<Rightarrow> int option \<Rightarrow> bool \<Rightarrow> int \<Rightarrow> int \<Rightarrow> rat option \<Rightarrow> combatant" where
  "sample_combatant i n disp owned x y ini =
     \<lparr>cid = i, actor = Some \<lparr>hasPlayerOwner = owned\<rparr>,
      token = Some (sample_token n disp owned x y), tokenId = i, isOwner = True,
      initiative = ini, initiativeResult = None\<rparr>"

definition sample_settings :: "bool \<Rightarrow> jsval \<Rightarrow> int option \<Rightarrow> settings" where
  "sample_settings sb ity m =
     \<lparr>sideBased = sb, initType = ity, skipDefeated = False, manualTN = m\<rparr>"

definition grid_distance :: "token \<Rightarrow> token \<Rightarrow> rat" where
  "grid_distance a b = of_int (max \<bar>posx a - posx b\<bar> \<bar>posy a - posy b\<bar>)"

definition sample_initiativeRoll :: "env \<Rightarrow> actor \<Rightarrow> int \<Rightarrow> DiceReturn" where
  "sample_initiativeRoll e a tn =
     (case rollTargetNumber e \<lparr>drawn = 0, chat = []\<rparr> tn 0 0 0 2 0 ''Initiative'' None False of
        Inr (Some d, w') \<Rightarrow> d
      | _ \<Rightarrow> \<lparr>roll = \<lparr>poolterms = [], total = 0\<rparr>, highest = 0, tnData = None,
               message = empty_message, isSent = False\<rparr>)"

definition sample_getInitiativeRoll :: "combatant \<Rightarrow> roll" where
  "sample_getInitiativeRoll c = \<lparr>poolterms = [], total = 0\<rparr>"

definition sample_actor :: actorDoc where
  "sample_actor =
     \<lparr>effects = [\<lparr>effectId = 1, statusId = Some ''hurt'',
                  effectLabel = ''urbanjungle.effect.status.hurt'',
                  effectIcon = ''icons/svg/acid.svg''\<rparr>]\<rparr>"

definition sample_cubHas :: "string list \<Rightarrow> target \<Rightarrow> bool" where
  "sample_cubHas names tg = False"

section \<open>Properties of the dice roller\<close>

lemma append_times_eq: "append_times n p s = s @ concat (replicate n p)"
  by (induction n arbitrary: s) (simp_all add: replicate_app_Cons_same)

lemma concat_replicate_piece:
  "concat (replicate n (t @ '','')) = concat (map (\<lambda>t. t @ '','') (replicate n t))"
  by (induction n) simp_all

lemma formRoll_join:
  "formRoll d12 d10 d8 d6 d4 =
     butlast (concat (map (\<lambda>t. t @ '','')
       (replicate (nat d12) ''1d12'' @ replicate (nat d10) ''1d10'' @ replicate (nat d8) ''1d8''
          @ replicate (nat d6) ''1d6'' @ replicate (nat d4) ''1d4'')))"
  using concat_replicate_piece[of "nat d12" "''1d12''"] concat_replicate_piece[of "nat d10" "''1d10''"]
    concat_replicate_piece[of "nat d8" "''1d8''"] concat_replicate_piece[of "nat d6" "''1d6''"]
    concat_replicate_piece[of "nat d4" "''1d4''"]
  by (simp add: formRoll_def append_times_eq Let_def)

lemma split_commas_nonempty: "split_commas s \<noteq> []"
  by (induction s) (auto split: list.splits)

lemma split_commas_plain: "CHR '','' \<notin> set t \<Longrightarrow> split_commas t = [t]"
  by (induction t) (auto split: list.splits)

lemma split_commas_piece:
  "CHR '','' \<notin> set t \<Longrightarrow> split_commas (t @ CHR '','' # s) = t # split_commas s"
  by (induction t) (auto split: list.splits simp: split_commas_nonempty)

lemma split_commas_join:
  "ts \<noteq> [] \<Longrightarrow> \<forall>t\<in>set ts. CHR '','' \<notin> set t \<Longrightarrow>
     split_commas (butlast (concat (map (\<lambda>t. t @ '','') ts))) = ts"
proof (induction ts)
  case Nil
  then show ?case by simp
next
  case (Cons t ts)
  show ?case
  proof (cases ts)
    case Nil
    with Cons.prems show ?thesis by (simp add: butlast_append split_commas_plain)
  next
    case (Cons u us)
    then have ne: "concat (map (\<lambda>t. t @ '','') ts) \<noteq> []" by simp
    have "butlast (concat (map (\<lambda>t. t @ '','') (t # ts)))
            = t @ CHR '','' # butlast (concat (map (\<lambda>t. t @ '','') ts))"
      using ne by (simp add: butlast_append)
    with Cons.IH Cons.prems Cons show ?thesis
      by (simp add: split_commas_piece)
  qed
qed

lemma tally_eq:
  "tally tni xs (hi, t, one) =
     (fold max xs hi, t + int (length (filter (\<lambda>x. x = tni) xs)), one \<or> 1 \<in> set xs)"
proof (induction xs arbitrary: hi t one)
  case Nil
  then show ?case by simp
next
  case (Cons x xs)
  show ?case by (simp add: Cons.IH max_def) 
qed

lemma eval_terms_dice:
  "list_all2 (\<lambda>t n. parse_term t = Some (Die n)) ts ns \<Longrightarrow>
     eval_terms dr k ts = Some (map (\<lambda>i. dr (k + i) (ns ! i)) [0..<length ns], k + length ns)"
proof (induction ts ns arbitrary: k rule: list_all2_induct)
  case Nil
  then show ?case by simp
next
  case (Cons t ts n ns)
  have "map (\<lambda>i. dr (k + i) ((n # ns) ! i)) [0..<length (n # ns)]
          = dr k n # map (\<lambda>i. dr (Suc k + i) (ns ! i)) [0..<length ns]"
    by (simp add: upt_conv_Cons map_Suc_upt[symmetric] del: upt_Suc)
  with Cons show ?case by simp
qed

lemma list_all2_replicate_same: "P x y \<Longrightarrow> list_all2 P (replicate n x) (replicate n y)"
  by (induction n) simp_all

lemma parse_term_dice:
  "parse_term ''1d12'' = Some (Die 12)" "parse_term ''1d10'' = Some (Die 10)"
  "parse_term ''1d8'' = Some (Die 8)" "parse_term ''1d6'' = Some (Die 6)"
  "parse_term ''1d4'' = Some (Die 4)"
  by (simp_all add: parse_term_def is_numeral_def is_digit_def nat_of_digits_def digit_val_def)

lemma length_concat_replicate: "length (concat (replicate n p)) = n * length p"
  by (induction n) simp_all

lemma length_formRoll:
  "length (formRoll d12 d10 d8 d6 d4) =
     5 * nat d12 + 5 * nat d10 + 4 * nat d8 + 4 * nat d6 + 4 * nat d4 - 1"
  by (simp add: formRoll_def append_times_eq Let_def length_concat_replicate, arith)

lemma formRoll_empty_iff:
  "(length (formRoll d12 d10 d8 d6 d4) = 0) = (nat d12 + nat d10 + nat d8 + nat d6 + nat d4 = 0)"
  unfolding length_formRoll by arith

lemma formRoll_terms:
  assumes "0 < nat d12 + nat d10 + nat d8 + nat d6 + nat d4"
  shows "split_commas (formRoll d12 d10 d8 d6 d4) =
     replicate (nat d12) ''1d12'' @ replicate (nat d10) ''1d10'' @ replicate (nat d8) ''1d8''
       @ replicate (nat d6) ''1d6'' @ replicate (nat d4) ''1d4''"
  unfolding formRoll_join
  by (rule split_commas_join) (use assms in auto)

lemma formRoll_dice:
  "list_all2 (\<lambda>t n. parse_term t = Some (Die n))
     (replicate a ''1d12'' @ replicate b ''1d10'' @ replicate c ''1d8''
       @ replicate d ''1d6'' @ replicate e ''1d4'')
     (replicate a 12 @ replicate b 10 @ replicate c 8 @ replicate d 6 @ replicate e 4)"
  by (intro list_all2_appendI list_all2_replicate_same parse_term_dice)

lemma evaluate_formRoll:
  assumes "0 < nat d12 + nat d10 + nat d8 + nat d6 + nat d4"
  shows "\<exists>rs. evaluate dr k (formRoll d12 d10 d8 d6 d4) m =
      Some (\<lparr>poolterms = [\<lparr>terms = split_commas (formRoll d12 d10 d8 d6 d4), results = rs\<rparr>],
              total = pool_total m rs\<rparr>,
            k + (nat d12 + nat d10 + nat d8 + nat d6 + nat d4))
      \<and> length rs = nat d12 + nat d10 + nat d8 + nat d6 + nat d4"
  unfolding evaluate_def formRoll_terms[OF assms] eval_terms_dice[OF formRoll_dice]
  by simp

text \<open>
  Claim C9. With all five die counts zero, \<^verbatim>\<open>rollTargetNumber\<close> and \<^verbatim>\<open>rollHighest\<close>
  return \<^verbatim>\<open>null\<close> and leave the state as it was: no die is drawn and no chat message
  is created.
\<close>

theorem empty_pool_no_roll:
  "rollTargetNumber e w tni 0 0 0 0 0 lbl rollingactor sendinchat = Inr (None, w)
   \<and> rollHighest e w 0 0 0 0 0 lbl rollingactor sendinchat = Inr (None, w)"
  by (simp add: rollTargetNumber_def rollHighest_def formRoll_def)

lemma rollTargetNumber_some:
  assumes "0 < nat d12 + nat d10 + nat d8 + nat d6 + nat d4"
  shows "\<exists>r w'. rollTargetNumber e w tni d12 d10 d8 d6 d4 lbl rollingactor sendinchat = Inr (Some r, w')"
proof -
  from evaluate_formRoll[OF assms, of "draw e" "drawn w" "CountSuccessesGT tni"]
  obtain rs where ev: "evaluate (draw e) (drawn w) (formRoll d12 d10 d8 d6 d4) (CountSuccessesGT tni) =
      Some (\<lparr>poolterms = [\<lparr>terms = split_commas (formRoll d12 d10 d8 d6 d4), results = rs\<rparr>],
              total = pool_total (CountSuccessesGT tni) rs\<rparr>,
            drawn w + (nat d12 + nat d10 + nat d8 + nat d6 + nat d4))" by blast
  have ne: "length (formRoll d12 d10 d8 d6 d4) \<noteq> 0"
    using assms formRoll_empty_iff[of d12 d10 d8 d6 d4] by auto
  show ?thesis
    using ne by (simp add: rollTargetNumber_def Let_def ev split: prod.splits)
qed

lemma rollTargetNumber_result:
  assumes "rollTargetNumber e w tni d12 d10 d8 d6 d4 lbl rollingactor sendinchat = Inr (Some r, w')"
  shows "tnData r = Some \<lparr>successes = int (length (filter (\<lambda>x. x > tni) (first_results (roll r)))),
                          ties = int (length (filter (\<lambda>x. x = tni) (first_results (roll r))))\<rparr>"
    and "highest r = fold max (first_results (roll r)) 0"
    and "hasOne (message r) = (1 \<in> set (first_results (roll r)))"
    and "flavor (message r) =
           flavorStringTN e (int (length (filter (\<lambda>x. x > tni) (first_results (roll r)))))
             (int (length (filter (\<lambda>x. x = tni) (first_results (roll r))))) (highest r = 1) lbl"
    and "length (first_results (roll r)) = nat d12 + nat d10 + nat d8 + nat d6 + nat d4"
    and "0 < nat d12 + nat d10 + nat d8 + nat d6 + nat d4"
proof -
  have ne: "length (formRoll d12 d10 d8 d6 d4) \<noteq> 0"
    using assms by (auto simp: rollTargetNumber_def Let_def)
  then show pos: "0 < nat d12 + nat d10 + nat d8 + nat d6 + nat d4"
    using formRoll_empty_iff[of d12 d10 d8 d6 d4] by auto
  from evaluate_formRoll[OF pos, of "draw e" "drawn w" "CountSuccessesGT tni"]
  obtain rs where ev: "evaluate (draw e) (drawn w) (formRoll d12 d10 d8 d6 d4) (CountSuccessesGT tni) =
      Some (\<lparr>poolterms = [\<lparr>terms = split_commas (formRoll d12 d10 d8 d6 d4), results = rs\<rparr>],
              total = pool_total (CountSuccessesGT tni) rs\<rparr>,
            drawn w + (nat d12 + nat d10 + nat d8 + nat d6 + nat d4))"
    and len: "length rs = nat d12 + nat d10 + nat d8 + nat d6 + nat d4" by blast
  have r: "r = \<lparr>roll = \<lparr>poolterms = [\<lparr>terms = split_commas (formRoll d12 d10 d8 d6 d4), results = rs\<rparr>],
                        total = int (length (filter (\<lambda>x. x > tni) rs))\<rparr>,
               highest = fold max rs 0,
               tnData = Some \<lparr>successes = int (length (filter (\<lambda>x. x > tni) rs)),
                               ties = int (length (filter (\<lambda>x. x = tni) rs))\<rparr>,
               message = \<lparr>isRoll = True, speaker = getMacroSpeaker e rollingactor,
                  flavor = flavorStringTN e (int (length (filter (\<lambda>x. x > tni) rs)))
                             (int (length (filter (\<lambda>x. x = tni) rs))) (fold max rs 0 = 1) lbl,
                  rollType = ''TN'', label = Some lbl, originalRoll = True,
                  hasOne = (1 \<in> set rs),
                  mroll = \<lparr>poolterms = [\<lparr>terms = split_commas (formRoll d12 d10 d8 d6 d4), results = rs\<rparr>],
                        total = int (length (filter (\<lambda>x. x > tni) rs))\<rparr>\<rparr>,
               isSent = sendinchat\<rparr>"
    using assms ne
    by (simp add: rollTargetNumber_def Let_def ev first_results_def tally_eq pool_total_def)
  show "tnData r = Some \<lparr>successes = int (length (filter (\<lambda>x. x > tni) (first_results (roll r)))),
                          ties = int (length (filter (\<lambda>x. x = tni) (first_results (roll r))))\<rparr>"
    by (simp add: r first_results_def)
  show "highest r = fold max (first_results (roll r)) 0"
    by (simp add: r first_results_def)
  show "hasOne (message r) = (1 \<in> set (first_results (roll r)))"
    by (simp add: r first_results_def)
  show "flavor (message r) =
           flavorStringTN e (int (length (filter (\<lambda>x. x > tni) (first_results (roll r)))))
             (int (length (filter (\<lambda>x. x = tni) (first_results (roll r))))) (highest r = 1) lbl"
    by (simp add: r first_results_def)
  show "length (first_results (roll r)) = nat d12 + nat d10 + nat d8 + nat d6 + nat d4"
    by (simp add: r first_results_def len)
qed


text \<open>
  Claim C10. For all die counts, \<^verbatim>\<open>formRoll\<close> lists the d12s first, then the d10s, d8s,
  d6s and the d4s last. For a non-empty pool the host reads exactly these terms from the
  string, and the \<open>i\<close>-th result is the \<open>i\<close>-th draw, taken with the size at position
  \<open>i\<close> of that order.
\<close>

theorem formRoll_size_order:
  "formRoll d12 d10 d8 d6 d4 =
     butlast (concat (map (\<lambda>t. t @ '','')
       (replicate (nat d12) ''1d12'' @ replicate (nat d10) ''1d10'' @ replicate (nat d8) ''1d8''
          @ replicate (nat d6) ''1d6'' @ replicate (nat d4) ''1d4'')))
   \<and> (0 < nat d12 + nat d10 + nat d8 + nat d6 + nat d4 \<longrightarrow>
        split_commas (formRoll d12 d10 d8 d6 d4) =
          replicate (nat d12) ''1d12'' @ replicate (nat d10) ''1d10'' @ replicate (nat d8) ''1d8''
            @ replicate (nat d6) ''1d6'' @ replicate (nat d4) ''1d4''
        \<and> eval_terms dr k (split_commas (formRoll d12 d10 d8 d6 d4)) =
            Some (map (\<lambda>i. dr (k + i)
                        ((replicate (nat d12) 12 @ replicate (nat d10) 10 @ replicate (nat d8) 8
                            @ replicate (nat d6) 6 @ replicate (nat d4) 4) ! i))
                    [0..<nat d12 + nat d10 + nat d8 + nat d6 + nat d4],
                  k + (nat d12 + nat d10 + nat d8 + nat d6 + nat d4)))"
proof (intro conjI impI)
  show "formRoll d12 d10 d8 d6 d4 =
     butlast (concat (map (\<lambda>t. t @ '','')
       (replicate (nat d12) ''1d12'' @ replicate (nat d10) ''1d10'' @ replicate (nat d8) ''1d8''
          @ replicate (nat d6) ''1d6'' @ replicate (nat d4) ''1d4'')))"
    by (rule formRoll_join)
next
  assume pos: "0 < nat d12 + nat d10 + nat d8 + nat d6 + nat d4"
  then show ts: "split_commas (formRoll d12 d10 d8 d6 d4) =
          replicate (nat d12) ''1d12'' @ replicate (nat d10) ''1d10'' @ replicate (nat d8) ''1d8''
            @ replicate (nat d6) ''1d6'' @ replicate (nat d4) ''1d4''"
    by (rule formRoll_terms)
  show "eval_terms dr k (split_commas (formRoll d12 d10 d8 d6 d4)) =
            Some (map (\<lambda>i. dr (k + i)
                        ((replicate (nat d12) 12 @ replicate (nat d10) 10 @ replicate (nat d8) 8
                            @ replicate (nat d6) 6 @ replicate (nat d4) 4) ! i))
                    [0..<nat d12 + nat d10 + nat d8 + nat d6 + nat d4],
                  k + (nat d12 + nat d10 + nat d8 + nat d6 + nat d4))"
    unfolding ts eval_terms_dice[OF formRoll_dice] by (simp add: add.assoc)
qed

theorem formRoll_size_order_witness:
  "formRoll 1 0 2 0 1 = ''1d12,1d8,1d8,1d4''
   \<and> (0::nat) < nat 1 + nat 0 + nat 2 + nat 0 + nat 1
   \<and> split_commas (formRoll 1 0 2 0 1) = [''1d12'', ''1d8'', ''1d8'', ''1d4'']
   \<and> eval_terms (fixed_draws [7, 1, 5, 2]) 0 (split_commas (formRoll 1 0 2 0 1))
       = Some ([7, 1, 5, 2], 4)"
proof -
  note th = formRoll_size_order [of 1 0 2 0 1 "fixed_draws [7, 1, 5, 2]" 0]
  have pos: "(0::nat) < nat 1 + nat 0 + nat 2 + nat 0 + nat 1"
    by simp
  from th have a: "formRoll 1 0 2 0 1 = ''1d12,1d8,1d8,1d4''"
    by (simp add: eval_nat_numeral)
  from th pos have b: "split_commas (formRoll 1 0 2 0 1) = [''1d12'', ''1d8'', ''1d8'', ''1d4'']"
    by (simp add: eval_nat_numeral)
  have v: "(map (\<lambda>i. fixed_draws [7, 1, 5, 2] (0 + i)
                        ((replicate (nat 1) 12 @ replicate (nat 0) 10 @ replicate (nat 2) 8
                            @ replicate (nat 0) 6 @ replicate (nat 1) 4) ! i))
                    [0..<nat 1 + nat 0 + nat 2 + nat 0 + nat 1],
                  0 + (nat 1 + nat 0 + nat 2 + nat 0 + nat 1)) = ([7, 1, 5, 2], 4)"
    by (simp add: eval_nat_numeral fixed_draws_def upt_rec)
  from th pos have c: "eval_terms (fixed_draws [7, 1, 5, 2]) 0 (split_commas (formRoll 1 0 2 0 1))
       = Some ([7, 1, 5, 2], 4)"
    unfolding v by blast
  from a pos b c show ?thesis
    by (intro conjI)
qed

text \<open>
  Claim C1, as amended. For every non-empty pool and every target number,
  \<^verbatim>\<open>rollTargetNumber\<close> returns a result with one die result per die of the pool, whose
  \<open>successes\<close> field is the number of results strictly greater than the target number
  and whose \<open>ties\<close> field is the number of results equal to it.
\<close>

theorem rollTargetNumber_counts:
  assumes "0 < nat d12 + nat d10 + nat d8 + nat d6 + nat d4"
  shows "\<exists>r w'. rollTargetNumber e w tni d12 d10 d8 d6 d4 lbl rollingactor sendinchat
                    = Inr (Some r, w')
     \<and> length (first_results (roll r)) = nat d12 + nat d10 + nat d8 + nat d6 + nat d4
     \<and> tnData r =
         Some \<lparr>successes = int (length (filter (\<lambda>x. x > tni) (first_results (roll r)))),
               ties = int (length (filter (\<lambda>x. x = tni) (first_results (roll r))))\<rparr>"
  using rollTargetNumber_some[OF assms] rollTargetNumber_result(1,5) by metis

theorem rollTargetNumber_counts_witness:
  "(0::nat) < nat 0 + nat 0 + nat 0 + nat 2 + nat 0
   \<and> (\<exists>r w'. rollTargetNumber (sample_env [4, 3]) \<lparr>drawn = 0, chat = []\<rparr> 3 0 0 0 2 0 ''Climb''
                 None True = Inr (Some r, w')
       \<and> length (first_results (roll r)) = nat 0 + nat 0 + nat 0 + nat 2 + nat 0
       \<and> tnData r =
         Some \<lparr>successes = int (length (filter (\<lambda>x. x > 3) (first_results (roll r)))),
               ties = int (length (filter (\<lambda>x. x = 3) (first_results (roll r))))\<rparr>)"
  using rollTargetNumber_counts [of 0 0 0 2 0 "sample_env [4, 3]" "\<lparr>drawn = 0, chat = []\<rparr>" 3
          "''Climb''" None True]
  by simp

text \<open>
  Claim C1 as stated counts a die equal to the target number as a success. One d6 showing
  3 against target number 3 gives no success and one tie.
\<close>

theorem successes_not_at_least_counterexample:
  "map_option (first_results \<circ> roll)
     (returned (rollTargetNumber (sample_env [3]) \<lparr>drawn = 0, chat = []\<rparr> 3 0 0 0 1 0 '''' None
        False)) = Some [3]
   \<and> map_option tnData
     (returned (rollTargetNumber (sample_env [3]) \<lparr>drawn = 0, chat = []\<rparr> 3 0 0 0 1 0 '''' None
        False)) = Some (Some \<lparr>successes = 0, ties = 1\<rparr>)
   \<and> int (length (filter (\<lambda>x. x \<ge> 3) [3::int])) = 1"
  by code_simp

lemma fold_max_one_iff:
  assumes "xs \<noteq> []" and "\<forall>x\<in>set xs. (1::int) \<le> x"
  shows "(fold max xs 0 = 1) = (\<forall>x\<in>set xs. x = 1)"
proof -
  have m: "fold max xs 0 = Max (set (0 # xs))"
    by (simp only: Max.set_eq_fold)
  have q: "(Max (set (0 # xs)) = 1) = (1 \<in> set (0 # xs) \<and> (\<forall>a\<in>set (0 # xs). a \<le> 1))"
    by (rule Max_eq_iff) simp_all
  show ?thesis
  proof
    assume "fold max xs 0 = 1"
    with m q have le: "\<forall>a\<in>set (0 # xs). a \<le> 1"
      by simp
    show "\<forall>x\<in>set xs. x = 1"
    proof
      fix x
      assume x: "x \<in> set xs"
      with le have "x \<le> 1"
        by simp
      moreover from assms(2) x have "1 \<le> x"
        by blast
      ultimately show "x = 1"
        by linarith
    qed
  next
    assume all: "\<forall>x\<in>set xs. x = 1"
    from assms(1) obtain y where y: "y \<in> set xs"
      by (cases xs) auto
    with all have "y = 1"
      by blast
    with y have one: "1 \<in> set (0 # xs)"
      by simp
    have "\<forall>a\<in>set (0 # xs). a \<le> 1"
    proof
      fix a
      assume "a \<in> set (0 # xs)"
      then have "a = 0 \<or> a \<in> set xs"
        by simp
      with all have "a = 0 \<or> a = 1"
        by blast
      then show "a \<le> 1"
        by linarith
    qed
    with one q m show "fold max xs 0 = 1"
      by simp
  qed
qed

text \<open>
  Claim C2, as amended. The flavor text of a threshold roll is chosen by this precedence:
  a success count above zero gives the success string; otherwise a highest die of 1 gives
  the botch string; otherwise a tie count above zero gives the tie string; otherwise the
  failure string. The highest die is the largest result (or 0), so when every die shows
  at least 1 the roll is a botch exactly when every die shows 1.
\<close>

theorem flavor_precedence:
  assumes "rollTargetNumber e w tni d12 d10 d8 d6 d4 lbl rollingactor sendinchat = Inr (Some r, w')"
  shows "\<exists>tn. tnData r = Some tn
     \<and> flavor (message r) = label_part lbl @
         (if 0 < successes tn then
            result_part e (success (resultColors (info e)))
              (format e ''urbanjungle.chat.success'' [(''successes'', toString (successes tn))])
          else if highest r = 1 then
            result_part e (botch (resultColors (info e))) (localize e ''urbanjungle.chat.botch'')
          else if 0 < ties tn then
            result_part e (tie (resultColors (info e)))
              (format e ''urbanjungle.chat.tie'' [(''ties'', toString (ties tn))])
          else
            result_part e (failure (resultColors (info e)))
              (localize e ''urbanjungle.chat.failure''))
     \<and> highest r = fold max (first_results (roll r)) 0
     \<and> ((\<forall>x\<in>set (first_results (roll r)). 1 \<le> x) \<longrightarrow>
          (highest r = 1) = (\<forall>x\<in>set (first_results (roll r)). x = 1))"
proof -
  note res = rollTargetNumber_result[OF assms]
  have ne: "first_results (roll r) \<noteq> []"
    using res(5,6) by auto
  have one: "(\<forall>x\<in>set (first_results (roll r)). 1 \<le> x) \<longrightarrow>
          (highest r = 1) = (\<forall>x\<in>set (first_results (roll r)). x = 1)"
    unfolding res(2) using fold_max_one_iff[OF ne] by blast
  show ?thesis
    using res(1,2,4) one by (simp add: flavorStringTN_def)
qed

theorem flavor_precedence_witness:
  \<open>\<exists>r w'. rollTargetNumber (sample_env [1, 1]) \<lparr>drawn = 0, chat = []\<rparr> 3 0 0 0 2 0 ''Climb'' None True
             = Inr (Some r, w')
     \<and> first_results (roll r) = [1, 1]
     \<and> highest r = 1
     \<and> flavor (message r) =
         ''<p>Climb</p><p style="font-size:1.8em;color:red">urbanjungle.chat.botch</p>''\<close>
proof -
  obtain r w' where call: "rollTargetNumber (sample_env [1, 1]) \<lparr>drawn = 0, chat = []\<rparr> 3 0 0 0 2 0
      ''Climb'' None True = Inr (Some r, w')"
    using rollTargetNumber_some[of 0 0 0 2 0 "sample_env [1, 1]" "\<lparr>drawn = 0, chat = []\<rparr>" 3
            "''Climb''" None True]
    by auto
  have "map_option (first_results \<circ> roll) (returned (rollTargetNumber (sample_env [1, 1])
      \<lparr>drawn = 0, chat = []\<rparr> 3 0 0 0 2 0 ''Climb'' None True)) = Some [1, 1]"
    by code_simp
  then have rs: "first_results (roll r) = [1, 1]"
    by (simp add: call returned_def)
  from flavor_precedence[OF call] obtain tn where tn: "tnData r = Some tn"
    and fl: "flavor (message r) = label_part ''Climb'' @
         (if 0 < successes tn then
            result_part (sample_env [1, 1]) (success (resultColors (info (sample_env [1, 1]))))
              (format (sample_env [1, 1]) ''urbanjungle.chat.success'' [(''successes'', toString (successes tn))])
          else if highest r = 1 then
            result_part (sample_env [1, 1]) (botch (resultColors (info (sample_env [1, 1])))) (localize (sample_env [1, 1]) ''urbanjungle.chat.botch'')
          else if 0 < ties tn then
            result_part (sample_env [1, 1]) (tie (resultColors (info (sample_env [1, 1]))))
              (format (sample_env [1, 1]) ''urbanjungle.chat.tie'' [(''ties'', toString (ties tn))])
          else
            result_part (sample_env [1, 1]) (failure (resultColors (info (sample_env [1, 1]))))
              (localize (sample_env [1, 1]) ''urbanjungle.chat.failure''))"
    and hi: "highest r = fold max (first_results (roll r)) 0"
    by blast
  from rollTargetNumber_result(1)[OF call] tn rs have s: "successes tn = 0"
    by simp
  from hi rs have h1: "highest r = 1"
    by simp
  from fl s h1 have \<open>flavor (message r) =
         ''<p>Climb</p><p style="font-size:1.8em;color:red">urbanjungle.chat.botch</p>''\<close>
    by (simp add: label_part_def result_part_def sample_env_def)
  with call rs h1 show ?thesis
    by blast
qed

text \<open>
  Claim C2 as stated makes any die showing 1 a botch. Two d6 showing 1 and 2 against
  target number 5 have a 1 among them (\<open>hasOne\<close> is set), no success and no tie, and the
  flavor text is the failure string.
\<close>

theorem botch_not_any_one_counterexample:
  \<open>map_option (first_results \<circ> roll)
     (returned (rollTargetNumber (sample_env [1, 2]) \<lparr>drawn = 0, chat = []\<rparr> 5 0 0 0 2 0 '''' None
        False)) = Some [1, 2]
   \<and> map_option (hasOne \<circ> message)
     (returned (rollTargetNumber (sample_env [1, 2]) \<lparr>drawn = 0, chat = []\<rparr> 5 0 0 0 2 0 '''' None
        False)) = Some True
   \<and> map_option tnData
     (returned (rollTargetNumber (sample_env [1, 2]) \<lparr>drawn = 0, chat = []\<rparr> 5 0 0 0 2 0 '''' None
        False)) = Some (Some \<lparr>successes = 0, ties = 0\<rparr>)
   \<and> map_option (flavor \<circ> message)
     (returned (rollTargetNumber (sample_env [1, 2]) \<lparr>drawn = 0, chat = []\<rparr> 5 0 0 0 2 0 '''' None
        False)) = Some ''<p style="font-size:1.8em;color:black">urbanjungle.chat.failure</p>''\<close>
  by code_simp

lemma lt10_cases: "(d::nat) < 10 \<Longrightarrow> d \<in> {0, 1, 2, 3, 4, 5, 6, 7, 8, 9}"
  by auto

lemma digit_val_digit_char: "d < 10 \<Longrightarrow> digit_val (digit_char d) = d"
  by (drule lt10_cases) (auto simp add: digit_val_def digit_char_def)

lemma is_digit_digit_char: "d < 10 \<Longrightarrow> is_digit (digit_char d)"
  by (drule lt10_cases) (auto simp add: is_digit_def digit_char_def)

lemma nat_of_digits_snoc: "nat_of_digits (s @ [c]) = 10 * nat_of_digits s + digit_val c"
  by (simp add: nat_of_digits_def)

lemma nat_of_digits_string_of_nat: "nat_of_digits (string_of_nat n) = n"
proof (induction n rule: string_of_nat.induct)
  case (1 n)
  show ?case
  proof (cases "n < 10")
    case True
    then show ?thesis
      by (simp add: string_of_nat.simps[of n] nat_of_digits_def digit_val_digit_char)
  next
    case False
    with 1 show ?thesis
      by (simp add: string_of_nat.simps[of n] nat_of_digits_snoc digit_val_digit_char)
  qed
qed

lemma string_of_nat_digits: "list_all is_digit (string_of_nat n)"
proof (induction n rule: string_of_nat.induct)
  case (1 n)
  show ?case
  proof (cases "n < 10")
    case True
    then show ?thesis
      by (simp add: string_of_nat.simps[of n] is_digit_digit_char)
  next
    case False
    with 1 show ?thesis
      by (simp add: string_of_nat.simps[of n] is_digit_digit_char)
  qed
qed

lemma string_of_nat_nonempty: "string_of_nat n \<noteq> []"
  by (subst string_of_nat.simps) simp

lemma is_numeral_string_of_nat: "is_numeral (string_of_nat n)"
  by (simp add: is_numeral_def string_of_nat_nonempty string_of_nat_digits)

lemma is_numeral_no_char:
  assumes "is_numeral s" and "\<not> is_digit c"
  shows "c \<notin> set s"
  using assms by (auto simp: is_numeral_def list_all_iff)

lemma not_digit_chars:
  "\<not> is_digit (CHR ''d'')" "\<not> is_digit (CHR '','')" "\<not> is_digit (CHR ''-'')"
  by (simp_all add: is_digit_def)

lemma is_numeral_not_die: "is_numeral s \<Longrightarrow> take 2 s \<noteq> ''1d''"
proof
  assume n: "is_numeral s" and t: "take 2 s = ''1d''"
  have "CHR ''d'' \<in> set (take 2 s)"
    by (simp add: t)
  then have "CHR ''d'' \<in> set s"
    by (rule in_set_takeD)
  with is_numeral_no_char[OF n not_digit_chars(1)] show False
    by simp
qed

lemma parse_term_numeral:
  "is_numeral s \<Longrightarrow> parse_term s = Some (Numeric (int (nat_of_digits s)))"
  by (simp add: parse_term_def is_numeral_not_die)

lemma parse_term_negative:
  assumes "is_numeral s"
  shows "parse_term (CHR ''-'' # s) = Some (Numeric (- int (nat_of_digits s)))"
proof -
  have "\<not> is_numeral (CHR ''-'' # s)"
    by (simp add: is_numeral_def not_digit_chars)
  then show ?thesis
    using assms by (simp add: parse_term_def)
qed

lemma parse_term_toString: "parse_term (toString x) = Some (Numeric x)"
proof (cases "x < 0")
  case True
  then show ?thesis
    by (simp add: toString_def parse_term_negative[OF is_numeral_string_of_nat]
        nat_of_digits_string_of_nat)
next
  case False
  then show ?thesis
    by (simp add: toString_def parse_term_numeral[OF is_numeral_string_of_nat]
        nat_of_digits_string_of_nat)
qed

lemma toString_no_comma: "CHR '','' \<notin> set (toString x)"
  using is_numeral_no_char[OF is_numeral_string_of_nat not_digit_chars(2)]
  by (simp add: toString_def)

lemma parse_term_die_no_comma:
  assumes "parse_term t = Some (Die n)"
  shows "CHR '','' \<notin> set t"
proof -
  have d: "take 2 t = ''1d'' \<and> is_numeral (drop 2 t)"
    using assms by (simp add: parse_term_def split: if_splits)
  have "set t = set (take 2 t) \<union> set (drop 2 t)"
    by (metis append_take_drop_id set_append)
  with d is_numeral_no_char[OF _ not_digit_chars(2), of "drop 2 t"] show ?thesis
    by simp
qed

lemma copy_loop_eq:
  "copy_loop rs f = f @ concat (map (\<lambda>t. t @ '','') (map toString rs))"
  by (induction rs arbitrary: f) simp_all

lemma reroll_loop_found:
  "reroll_loop ts i rs (True, f) = (True, f @ concat (map (\<lambda>t. t @ '','') (map toString rs)))"
  by (induction rs arbitrary: i f) simp_all

lemma reroll_loop_no_one:
  "1 \<notin> set rs \<Longrightarrow>
     reroll_loop ts i rs (False, f) = (False, f @ concat (map (\<lambda>t. t @ '','') (map toString rs)))"
  by (induction rs arbitrary: i f) simp_all

lemma reroll_loop_first_one:
  "j < length rs \<Longrightarrow> rs ! j = 1 \<Longrightarrow> \<forall>l<j. rs ! l \<noteq> 1 \<Longrightarrow>
     reroll_loop ts i rs (False, f) =
       (True, f @ concat (map (\<lambda>t. t @ '','') ((map toString rs)[j := term_at ts (i + j)])))"
proof (induction rs arbitrary: i j f)
  case Nil
  then show ?case by simp
next
  case (Cons x xs)
  show ?case
  proof (cases j)
    case 0
    with Cons.prems show ?thesis
      by (simp add: reroll_loop_found)
  next
    case (Suc j')
    from Cons.prems(3) Suc have x: "x \<noteq> 1"
      by force
    from Cons.prems(3) Suc have rest: "\<forall>l<j'. xs ! l \<noteq> 1"
      by force
    from Cons.prems(1,2) Suc have "j' < length xs" "xs ! j' = 1"
      by simp_all
    from Cons.IH[OF this rest, of "Suc i" "f @ toString x @ '',''"] x Suc show ?thesis
      by simp
  qed
qed

lemma eval_terms_numerals: "eval_terms dr k (map toString rs) = Some (rs, k)"
  by (induction rs) (simp_all add: parse_term_toString)

lemma eval_terms_one_die:
  "j < length rs \<Longrightarrow> parse_term t = Some (Die n) \<Longrightarrow>
     eval_terms dr k ((map toString rs)[j := t]) = Some (rs[j := dr k n], Suc k)"
proof (induction rs arbitrary: j)
  case Nil
  then show ?case by simp
next
  case (Cons x xs)
  show ?case
  proof (cases j)
    case 0
    with Cons.prems show ?thesis
      by (simp add: eval_terms_numerals)
  next
    case (Suc j')
    with Cons show ?thesis
      by (simp add: parse_term_toString)
  qed
qed

lemma copyDicePoolResult_eq:
  "poolterms pr = p # ps \<Longrightarrow>
     copyDicePoolResult pr = butlast (concat (map (\<lambda>t. t @ '','') (map toString (results p))))"
  by (simp add: copyDicePoolResult_def copy_loop_eq Let_def)

lemma copyRerollHighestOne_no_one:
  assumes "poolterms pr = [] \<or> 1 \<notin> set (first_results pr)"
  shows "copyRerollHighestOne pr = copyDicePoolResult pr"
proof (cases "poolterms pr")
  case Nil
  then show ?thesis
    by (simp add: copyRerollHighestOne_def copyDicePoolResult_def)
next
  case (Cons p ps)
  with assms have "1 \<notin> set (results p)"
    by (simp add: first_results_def)
  with Cons show ?thesis
    by (simp add: copyRerollHighestOne_def copyDicePoolResult_def reroll_loop_no_one copy_loop_eq)
qed

lemma copyRerollHighestOne_eq:
  assumes "poolterms pr = p # ps"
    and "j < length (results p)" and "results p ! j = 1" and "\<forall>l<j. results p ! l \<noteq> 1"
  shows "copyRerollHighestOne pr =
     butlast (concat (map (\<lambda>t. t @ '','') ((map toString (results p))[j := term_at (terms p) j])))"
  using assms(1) reroll_loop_first_one[OF assms(2-4), of "terms p" 0 "''''"]
  by (simp add: copyRerollHighestOne_def)

lemma reroll_terms:
  assumes "poolterms pr = p # ps"
    and "j < length (results p)" and "results p ! j = 1" and "\<forall>l<j. results p ! l \<noteq> 1"
    and "j < length (terms p)" and "parse_term (terms p ! j) = Some (Die n)"
  shows "split_commas (copyRerollHighestOne pr) = (map toString (results p))[j := terms p ! j]"
proof -
  have ta: "term_at (terms p) j = terms p ! j"
    using assms(5) by (simp add: term_at_def)
  have ne: "(map toString (results p))[j := terms p ! j] \<noteq> []"
    using assms(2) by auto
  have nc: "\<forall>t\<in>set ((map toString (results p))[j := terms p ! j]). CHR '','' \<notin> set t"
  proof
    fix t
    assume "t \<in> set ((map toString (results p))[j := terms p ! j])"
    then have "t \<in> insert (terms p ! j) (set (map toString (results p)))"
      using set_update_subset_insert by fastforce
    then show "CHR '','' \<notin> set t"
      using parse_term_die_no_comma[OF assms(6)] toString_no_comma by auto
  qed
  show ?thesis
    unfolding copyRerollHighestOne_eq[OF assms(1-4)] ta
    by (rule split_commas_join[OF ne nc])
qed

lemma reroll_evaluate:
  assumes "poolterms pr = p # ps"
    and "j < length (results p)" and "results p ! j = 1" and "\<forall>l<j. results p ! l \<noteq> 1"
    and "j < length (terms p)" and "parse_term (terms p ! j) = Some (Die n)"
  shows "evaluate dr k (copyRerollHighestOne pr) m =
     Some (\<lparr>poolterms = [\<lparr>terms = (map toString (results p))[j := terms p ! j],
                            results = (results p)[j := dr k n]\<rparr>],
            total = pool_total m ((results p)[j := dr k n])\<rparr>, Suc k)"
  unfolding evaluate_def reroll_terms[OF assms] eval_terms_one_die[OF assms(2,6)]
  by simp

lemma reroll_nonempty:
  assumes "poolterms pr = p # ps"
    and "j < length (results p)" and "results p ! j = 1" and "\<forall>l<j. results p ! l \<noteq> 1"
    and "j < length (terms p)" and "parse_term (terms p ! j) = Some (Die n)"
  shows "copyRerollHighestOne pr \<noteq> []"
proof
  assume e: "copyRerollHighestOne pr = []"
  have "split_commas (copyRerollHighestOne pr) = [[]]"
    by (simp add: e)
  with reroll_terms[OF assms] have u: "(map toString (results p))[j := terms p ! j] = [[]]"
    by simp
  then have "length ((map toString (results p))[j := terms p ! j]) = length [[]::string]"
    by (rule arg_cong)
  then have "length (results p) = 1"
    by simp
  with assms(2) have "j = 0"
    by simp
  with u assms(2) have "terms p ! j = []"
    by (cases "results p") simp_all
  with assms(6) show False
    by (simp add: parse_term_def is_numeral_def)
qed

lemma copyToRollTN_evaluated:
  assumes "isRoll m" and "label m = Some lbl"
    and "rs = (if rerollone then copyRerollHighestOne (mroll m) else copyDicePoolResult (mroll m))"
    and "rs \<noteq> []"
    and "evaluate (draw e) (drawn w) rs (CountSuccessesGT tni) = Some (r, k)"
  shows "\<exists>d w'. copyToRollTN e w tni (Some m) sendinchat rerollone = Inr (Some d, w')
           \<and> roll d = r \<and> drawn w' = k"
  using assms by (simp add: copyToRollTN_def Let_def split: prod.splits)

lemma copyToRollHighest_evaluated:
  assumes "isRoll m" and "label m = Some lbl"
    and "rs = (if rerollone then copyRerollHighestOne (mroll m) else copyDicePoolResult (mroll m))"
    and "rs \<noteq> []"
    and "evaluate (draw e) (drawn w) rs KeepHighest = Some (r, k)"
  shows "\<exists>d w'. copyToRollHighest e w (Some m) sendinchat rerollone = Inr (Some d, w')
           \<and> roll d = r \<and> drawn w' = k"
  using assms by (simp add: copyToRollHighest_def Let_def)

text \<open>
  Claim C4, as amended. When no result of the prior roll is 1, the reroll formula is the
  plain copy. When the first result equal to 1 stands at position \<open>j\<close> and the pool term
  at that position is a die \<^verbatim>\<open>1dN\<close> (as in every roll made by the rollers, the rolls the
  reroll menu entry is offered on), the reroll formula holds that die at position \<open>j\<close> and
  the numeral of the prior result everywhere else; evaluating it draws one die of \<open>N\<close>
  faces for position \<open>j\<close> and keeps every other result, and this is the roll returned by
  \<^verbatim>\<open>copyToRollTN\<close> and \<^verbatim>\<open>copyToRollHighest\<close> with \<^verbatim>\<open>rerollone\<close> set.
\<close>

theorem reroll_first_one:
  "(1 \<notin> set (first_results pr) \<longrightarrow> copyRerollHighestOne pr = copyDicePoolResult pr)
   \<and> (poolterms pr = p # ps \<and> j < length (results p) \<and> results p ! j = 1
        \<and> (\<forall>l<j. results p ! l \<noteq> 1)
        \<and> j < length (terms p) \<and> parse_term (terms p ! j) = Some (Die n) \<longrightarrow>
        split_commas (copyRerollHighestOne pr) = (map toString (results p))[j := terms p ! j]
        \<and> evaluate dr k (copyRerollHighestOne pr) md =
            Some (\<lparr>poolterms = [\<lparr>terms = (map toString (results p))[j := terms p ! j],
                                   results = (results p)[j := dr k n]\<rparr>],
                   total = pool_total md ((results p)[j := dr k n])\<rparr>, Suc k)
        \<and> (mroll m = pr \<and> isRoll m \<and> label m = Some lbl \<longrightarrow>
             (\<exists>d w'. copyToRollTN e w tni (Some m) sendinchat True = Inr (Some d, w')
                \<and> first_results (roll d) = (results p)[j := draw e (drawn w) n]
                \<and> drawn w' = Suc (drawn w))
             \<and> (\<exists>d w'. copyToRollHighest e w (Some m) sendinchat True = Inr (Some d, w')
                \<and> first_results (roll d) = (results p)[j := draw e (drawn w) n]
                \<and> drawn w' = Suc (drawn w))))"
proof (intro conjI impI)
  assume "1 \<notin> set (first_results pr)"
  then show "copyRerollHighestOne pr = copyDicePoolResult pr"
    by (simp add: copyRerollHighestOne_no_one)
next
  assume h: "poolterms pr = p # ps \<and> j < length (results p) \<and> results p ! j = 1
        \<and> (\<forall>l<j. results p ! l \<noteq> 1)
        \<and> j < length (terms p) \<and> parse_term (terms p ! j) = Some (Die n)"
  then have a: "poolterms pr = p # ps" "j < length (results p)" "results p ! j = 1"
    "\<forall>l<j. results p ! l \<noteq> 1" "j < length (terms p)" "parse_term (terms p ! j) = Some (Die n)"
    by blast+
  show "split_commas (copyRerollHighestOne pr) = (map toString (results p))[j := terms p ! j]"
    by (rule reroll_terms[OF a])
  show "evaluate dr k (copyRerollHighestOne pr) md =
            Some (\<lparr>poolterms = [\<lparr>terms = (map toString (results p))[j := terms p ! j],
                                   results = (results p)[j := dr k n]\<rparr>],
                   total = pool_total md ((results p)[j := dr k n])\<rparr>, Suc k)"
    by (rule reroll_evaluate[OF a])
  assume m: "mroll m = pr \<and> isRoll m \<and> label m = Some lbl"
  have ne: "copyRerollHighestOne pr \<noteq> []"
    by (rule reroll_nonempty[OF a])
  have rs: "copyRerollHighestOne pr =
      (if True then copyRerollHighestOne (mroll m) else copyDicePoolResult (mroll m))"
    using m by simp
  from copyToRollTN_evaluated[OF _ _ rs ne reroll_evaluate[OF a], of lbl e w tni sendinchat] m
  show "\<exists>d w'. copyToRollTN e w tni (Some m) sendinchat True = Inr (Some d, w')
                \<and> first_results (roll d) = (results p)[j := draw e (drawn w) n]
                \<and> drawn w' = Suc (drawn w)"
    by (auto simp: first_results_def)
  from copyToRollHighest_evaluated[OF _ _ rs ne reroll_evaluate[OF a], of lbl e w sendinchat] m
  show "\<exists>d w'. copyToRollHighest e w (Some m) sendinchat True = Inr (Some d, w')
                \<and> first_results (roll d) = (results p)[j := draw e (drawn w) n]
                \<and> drawn w' = Suc (drawn w)"
    by (auto simp: first_results_def)
qed

theorem reroll_first_one_witness:
  "copyRerollHighestOne (sample_roll [''1d12'', ''1d6''] [7, 3] 7)
     = copyDicePoolResult (sample_roll [''1d12'', ''1d6''] [7, 3] 7)
   \<and> split_commas (copyRerollHighestOne (sample_roll [''1d12'', ''1d6'', ''1d6''] [7, 1, 1] 7))
       = [''7'', ''1d6'', ''1'']
   \<and> evaluate (fixed_draws [4]) 0
         (copyRerollHighestOne (sample_roll [''1d12'', ''1d6'', ''1d6''] [7, 1, 1] 7)) KeepHighest
       = Some (sample_roll [''7'', ''1d6'', ''1''] [7, 4, 1] 7, 1)
   \<and> (\<exists>d w'. copyToRollTN (sample_env [4]) \<lparr>drawn = 0, chat = []\<rparr> 3
         (Some (sample_message (sample_roll [''1d12'', ''1d6'', ''1d6''] [7, 1, 1] 7) True))
         False True = Inr (Some d, w')
        \<and> first_results (roll d) = [7, 4, 1] \<and> drawn w' = 1)
   \<and> (\<exists>d w'. copyToRollHighest (sample_env [4]) \<lparr>drawn = 0, chat = []\<rparr>
         (Some (sample_message (sample_roll [''1d12'', ''1d6'', ''1d6''] [7, 1, 1] 7) True))
         False True = Inr (Some d, w')
        \<and> first_results (roll d) = [7, 4, 1] \<and> drawn w' = 1)"
proof -
  let ?pr = "sample_roll [''1d12'', ''1d6'', ''1d6''] [7, 1, 1] 7"
  let ?p = "\<lparr>terms = [''1d12'', ''1d6'', ''1d6''], results = [7, 1, 1]\<rparr>"
  let ?m = "sample_message ?pr True"
  have none: "1 \<notin> set (first_results (sample_roll [''1d12'', ''1d6''] [7, 3] 7))"
    by (simp add: sample_roll_def first_results_def)
  with reroll_first_one[where pr = "sample_roll [''1d12'', ''1d6''] [7, 3] 7"]
  have c1: "copyRerollHighestOne (sample_roll [''1d12'', ''1d6''] [7, 3] 7)
     = copyDicePoolResult (sample_roll [''1d12'', ''1d6''] [7, 3] 7)"
    by blast
  have h: "poolterms ?pr = ?p # [] \<and> 1 < length (results ?p) \<and> results ?p ! 1 = 1
        \<and> (\<forall>l<1. results ?p ! l \<noteq> 1)
        \<and> 1 < length (terms ?p) \<and> parse_term (terms ?p ! 1) = Some (Die 6)"
    by (simp add: sample_roll_def parse_term_dice)
  have hm: "mroll ?m = ?pr \<and> isRoll ?m \<and> label ?m = Some ''Climb''"
    by (simp add: sample_message_def)
  have ts: "(map toString (results ?p))[1 := terms ?p ! 1] = [''7'', ''1d6'', ''1'']"
    by (simp add: toString_def string_of_nat.simps digit_char_def)
  have rs: "(results ?p)[1 := fixed_draws [4] 0 6] = [7, 4, 1]"
    by (simp add: fixed_draws_def)
  have rs': "(results ?p)[1 := draw (sample_env [4]) (drawn \<lparr>drawn = 0, chat = []\<rparr>) 6] = [7, 4, 1]"
    by (simp add: fixed_draws_def sample_env_def)
  have tot: "pool_total KeepHighest [7, 4, 1] = 7"
    by (simp add: pool_total_def)
  note th = reroll_first_one[where pr = ?pr and p = ?p and ps = "[]" and j = 1 and n = 6
      and dr = "fixed_draws [4]" and k = 0 and md = KeepHighest and m = ?m and lbl = "''Climb''"
      and e = "sample_env [4]" and w = "\<lparr>drawn = 0, chat = []\<rparr>" and tni = 3
      and sendinchat = False]
  from th h have c2: "split_commas (copyRerollHighestOne ?pr) = [''7'', ''1d6'', ''1'']"
    unfolding ts by blast
  from th h have c3: "evaluate (fixed_draws [4]) 0 (copyRerollHighestOne ?pr) KeepHighest
       = Some (sample_roll [''7'', ''1d6'', ''1''] [7, 4, 1] 7, 1)"
    unfolding ts rs tot sample_roll_def by simp
  from th h hm have c4: "\<exists>d w'. copyToRollTN (sample_env [4]) \<lparr>drawn = 0, chat = []\<rparr> 3
         (Some ?m) False True = Inr (Some d, w')
        \<and> first_results (roll d) = [7, 4, 1] \<and> drawn w' = 1"
    unfolding rs' by simp
  from th h hm have c5: "\<exists>d w'. copyToRollHighest (sample_env [4]) \<lparr>drawn = 0, chat = []\<rparr>
         (Some ?m) False True = Inr (Some d, w')
        \<and> first_results (roll d) = [7, 4, 1] \<and> drawn w' = 1"
    unfolding rs' by simp
  from c1 c2 c3 c4 c5 show ?thesis
    by (intro conjI)
qed

text \<open>
  Claim C4 as stated speaks of every prior roll. A roll that is itself a copy has numerals
  as its pool terms: the copy of two d6 showing 1 and 5 has the terms \<^verbatim>\<open>1\<close> and \<^verbatim>\<open>5\<close>.
  Rerolling it puts the term \<^verbatim>\<open>1\<close> back, so no die is drawn and the result stays 1.
\<close>

theorem reroll_of_copy_counterexample:
  "map_option roll (returned (copyToRollHighest (sample_env [6]) \<lparr>drawn = 0, chat = []\<rparr>
       (Some (sample_message (sample_roll [''1d6'', ''1d6''] [1, 5] 5) True)) False False))
     = Some (sample_roll [''1'', ''5''] [1, 5] 5)
   \<and> copyRerollHighestOne (sample_roll [''1'', ''5''] [1, 5] 5) = ''1,5''
   \<and> evaluate (fixed_draws [6]) 0 (copyRerollHighestOne (sample_roll [''1'', ''5''] [1, 5] 5))
        KeepHighest = Some (sample_roll [''1'', ''5''] [1, 5] 5, 0)
   \<and> map_option (first_results \<circ> roll)
        (returned (copyToRollHighest (sample_env [6]) \<lparr>drawn = 0, chat = []\<rparr>
           (Some (sample_message (sample_roll [''1'', ''5''] [1, 5] 5) False)) False True))
      = Some [1, 5]"
  by code_simp

text \<open>
  Claim C3. In mode 5 (enemies, then player characters, then allies) the test
  \<^verbatim>\<open>side == side == 0\<close> never holds, so a hostile combatant without a player owner gets
  bucket 1, the bucket of an ally, where the mode's order gives the enemies bucket 3; a
  player character gets 2. With the number 0 as \<^verbatim>\<open>initType\<close> the guard of
  \<^verbatim>\<open>getInitiativeGroup\<close> takes the mode for missing and returns the sentinel -1.
\<close>

theorem initiative_group_mode5_mode0:
  "getInitiativeGroup (sample_combatant ''e1'' ''Thug'' (Some (- 1)) False 0 0 None)
     (sample_settings True (JNum 5) (Some (- 1))) = 1
   \<and> getInitiativeGroup (sample_combatant ''a1'' ''Guard'' (Some 1) False 0 0 None)
     (sample_settings True (JNum 5) (Some (- 1))) = 1
   \<and> getInitiativeGroup (sample_combatant ''p1'' ''Hero'' (Some 1) True 0 0 None)
     (sample_settings True (JNum 5) (Some (- 1))) = 2
   \<and> getInitiativeGroup (sample_combatant ''e1'' ''Thug'' (Some (- 1)) False 0 0 None)
     (sample_settings True (JNum 4) (Some (- 1))) = 1
   \<and> getInitiativeGroup (sample_combatant ''a1'' ''Guard'' (Some 1) False 0 0 None)
     (sample_settings True (JNum 4) (Some (- 1))) = 2
   \<and> getInitiativeGroup (sample_combatant ''p1'' ''Hero'' (Some 1) True 0 0 None)
     (sample_settings True (JNum 4) (Some (- 1))) = 3
   \<and> getInitiativeGroup (sample_combatant ''p1'' ''Hero'' (Some 1) True 0 0 None)
     (sample_settings True (JNum 0) (Some (- 1))) = - 1"
  by (simp add: getInitiativeGroup_def sample_combatant_def sample_settings_def sample_token_def
      FRIENDLY_def)

lemma initiative_group_mode5_never_3:
  "initType st = JNum 5 \<Longrightarrow> getInitiativeGroup c st \<noteq> 3"
  by (simp add: getInitiativeGroup_def Let_def split: option.splits)

text \<open>
  Claim C5. Two different combatants with the same initiative, the same ownership and the
  same token name are told apart only by \<^verbatim>\<open>a.tokenId - b.tokenId\<close>. The ids are strings
  that are not numerals, the difference is \<^verbatim>\<open>NaN\<close> in both directions, and the turn order
  follows the order of the input list.
\<close>

theorem sortCombatants_same_keys:
  "sample_combatant ''aB3x'' ''Goblin'' (Some (- 1)) False 0 0 (Some 2)
     \<noteq> sample_combatant ''kQ9z'' ''Goblin'' (Some (- 1)) False 5 0 (Some 2)
   \<and> sortCombatants (sample_combatant ''aB3x'' ''Goblin'' (Some (- 1)) False 0 0 (Some 2))
        (sample_combatant ''kQ9z'' ''Goblin'' (Some (- 1)) False 5 0 (Some 2)) = NaN
   \<and> sortCombatants (sample_combatant ''kQ9z'' ''Goblin'' (Some (- 1)) False 5 0 (Some 2))
        (sample_combatant ''aB3x'' ''Goblin'' (Some (- 1)) False 0 0 (Some 2)) = NaN
   \<and> setupTurns [sample_combatant ''aB3x'' ''Goblin'' (Some (- 1)) False 0 0 (Some 2),
                  sample_combatant ''kQ9z'' ''Goblin'' (Some (- 1)) False 5 0 (Some 2)]
       = [sample_combatant ''aB3x'' ''Goblin'' (Some (- 1)) False 0 0 (Some 2),
          sample_combatant ''kQ9z'' ''Goblin'' (Some (- 1)) False 5 0 (Some 2)]
   \<and> setupTurns [sample_combatant ''kQ9z'' ''Goblin'' (Some (- 1)) False 5 0 (Some 2),
                  sample_combatant ''aB3x'' ''Goblin'' (Some (- 1)) False 0 0 (Some 2)]
       = [sample_combatant ''kQ9z'' ''Goblin'' (Some (- 1)) False 5 0 (Some 2),
          sample_combatant ''aB3x'' ''Goblin'' (Some (- 1)) False 0 0 (Some 2)]"
proof -
  have ab: "sortCombatants (sample_combatant ''aB3x'' ''Goblin'' (Some (- 1)) False 0 0 (Some 2))
        (sample_combatant ''kQ9z'' ''Goblin'' (Some (- 1)) False 5 0 (Some 2)) = NaN"
    by (simp add: sortCombatants_def sample_combatant_def sample_token_def localeCompare_def
        toNumber_id_def is_digit_def)
  have ba: "sortCombatants (sample_combatant ''kQ9z'' ''Goblin'' (Some (- 1)) False 5 0 (Some 2))
        (sample_combatant ''aB3x'' ''Goblin'' (Some (- 1)) False 0 0 (Some 2)) = NaN"
    by (simp add: sortCombatants_def sample_combatant_def sample_token_def localeCompare_def
        toNumber_id_def is_digit_def)
  have ne: "sample_combatant ''aB3x'' ''Goblin'' (Some (- 1)) False 0 0 (Some 2)
     \<noteq> sample_combatant ''kQ9z'' ''Goblin'' (Some (- 1)) False 5 0 (Some 2)"
    by (simp add: sample_combatant_def)
  show ?thesis
    using ne ab ba by (simp add: setupTurns_def js_sort_def cmp_positive_def)
qed

lemma closest_loop_no_tokens:
  "\<forall>x\<in>set xs. token x = None \<Longrightarrow> closest_loop md t xs distance = distance"
  by (induction xs arbitrary: distance) simp_all

lemma getDistanceToClosestOther_no_tokens:
  "\<forall>x\<in>set xs. token x = None \<Longrightarrow> getDistanceToClosestOther md c xs = 10000"
  by (simp add: getDistanceToClosestOther_def closest_loop_no_tokens split: option.splits)

lemma derivedTN_default:
  "actor c = None \<or> token c = None \<or> \<not> truthy (initType st) \<or> allcombatants = None \<Longrightarrow>
     derivedTN md c allcombatants st = 2"
  by (auto simp: derivedTN_def split: option.splits)

lemma derivedTN_no_opponent:
  assumes "actor c = Some a" and "token c = Some t" and "truthy (initType st)"
    and "allcombatants = Some cs"
    and "\<forall>x\<in>set (otherSide a t (initType st) cs). token x = None"
  shows "derivedTN md c allcombatants st = 6"
  using assms(1-4) getDistanceToClosestOther_no_tokens[OF assms(5), of md c]
  by (simp add: derivedTN_def getDistanceTN_def)

text \<open>
  Claim C6, as amended. When no positive manual target number is set: a combatant without
  actor or token, a missing or falsy \<^verbatim>\<open>initType\<close>, or a missing combatant list give the
  default 2; a combatant with actor and token, facing no opposing combatant that has a
  token (in particular no opposing combatant at all), keeps the starting distance 10000
  and gets the target number 6.
\<close>

theorem initiativeTN_without_opponents:
  assumes "manualTN st = None \<or> (\<exists>n. manualTN st = Some n \<and> n \<le> 0)"
  shows "(actor c = None \<or> token c = None \<or> \<not> truthy (initType st) \<or> allcombatants = None
            \<longrightarrow> getInitiativeTN md c allcombatants st = 2)
       \<and> (actor c = Some a \<and> token c = Some t \<and> truthy (initType st)
            \<and> allcombatants = Some cs
            \<and> (\<forall>x\<in>set (otherSide a t (initType st) cs). token x = None)
            \<longrightarrow> getInitiativeTN md c allcombatants st = 6)"
proof -
  have m: "getInitiativeTN md c allcombatants st = derivedTN md c allcombatants st"
    using assms by (auto simp: getInitiativeTN_def)
  show ?thesis
    unfolding m using derivedTN_default derivedTN_no_opponent by blast
qed

theorem initiativeTN_without_opponents_witness:
  "getInitiativeTN grid_distance
      ((sample_combatant ''p1'' ''Hero'' (Some 1) True 0 0 None)\<lparr>token := None\<rparr>)
      (Some [sample_combatant ''e1'' ''Thug'' (Some (- 1)) False 3 0 None])
      (sample_settings True (JNum 2) (Some (- 1))) = 2
   \<and> otherSide \<lparr>hasPlayerOwner = True\<rparr> (sample_token ''Hero'' (Some 1) True 0 0) (JNum 2)
        [sample_combatant ''p1'' ''Hero'' (Some 1) True 0 0 None,
         sample_combatant ''a1'' ''Guard'' (Some 1) False 2 0 None] = []
   \<and> getInitiativeTN grid_distance (sample_combatant ''p1'' ''Hero'' (Some 1) True 0 0 None)
      (Some [sample_combatant ''p1'' ''Hero'' (Some 1) True 0 0 None,
             sample_combatant ''a1'' ''Guard'' (Some 1) False 2 0 None])
      (sample_settings True (JNum 2) (Some (- 1))) = 6"
proof -
  let ?st = "sample_settings True (JNum 2) (Some (- 1))"
  let ?p = "sample_combatant ''p1'' ''Hero'' (Some 1) True 0 0 None"
  let ?cs = "[?p, sample_combatant ''a1'' ''Guard'' (Some 1) False 2 0 None]"
  have man: "manualTN ?st = None \<or> (\<exists>n. manualTN ?st = Some n \<and> n \<le> 0)"
    by (simp add: sample_settings_def)
  have h1: "actor (?p\<lparr>token := None\<rparr>) = None \<or> token (?p\<lparr>token := None\<rparr>) = None
      \<or> \<not> truthy (initType ?st)
      \<or> Some [sample_combatant ''e1'' ''Thug'' (Some (- 1)) False 3 0 None] = None"
    by simp
  from initiativeTN_without_opponents[OF man, of "?p\<lparr>token := None\<rparr>"
      "Some [sample_combatant ''e1'' ''Thug'' (Some (- 1)) False 3 0 None]" grid_distance] h1
  have c1: "getInitiativeTN grid_distance (?p\<lparr>token := None\<rparr>)
      (Some [sample_combatant ''e1'' ''Thug'' (Some (- 1)) False 3 0 None]) ?st = 2"
    by blast
  have os: "otherSide \<lparr>hasPlayerOwner = True\<rparr> (sample_token ''Hero'' (Some 1) True 0 0) (JNum 2) ?cs
      = []"
    by (simp add: otherSide_def sample_combatant_def sample_token_def FRIENDLY_def)
  have h2: "actor ?p = Some \<lparr>hasPlayerOwner = True\<rparr>
      \<and> token ?p = Some (sample_token ''Hero'' (Some 1) True 0 0)
      \<and> truthy (initType ?st) \<and> Some ?cs = Some ?cs
      \<and> (\<forall>x\<in>set (otherSide \<lparr>hasPlayerOwner = True\<rparr> (sample_token ''Hero'' (Some 1) True 0 0)
                       (initType ?st) ?cs). token x = None)"
    using os by (simp add: sample_combatant_def sample_settings_def)
  from initiativeTN_without_opponents[OF man, of ?p "Some ?cs" grid_distance
      "\<lparr>hasPlayerOwner = True\<rparr>" "sample_token ''Hero'' (Some 1) True 0 0" ?cs] h2
  have c2: "getInitiativeTN grid_distance ?p (Some ?cs) ?st = 6"
    by blast
  from c1 os c2 show ?thesis
    by (intro conjI)
qed

text \<open>
  Claim C6 as stated gives the default 2 whenever a participant has no opposing
  participants. A player character whose only fellow combatant is an ally has no one on
  the other side, and its target number is 6.
\<close>

theorem no_opponents_not_2_counterexample:
  "otherSide \<lparr>hasPlayerOwner = True\<rparr> (sample_token ''Hero'' (Some 1) True 0 0) (JNum 2)
        [sample_combatant ''p1'' ''Hero'' (Some 1) True 0 0 None,
         sample_combatant ''a1'' ''Guard'' (Some 1) False 2 0 None] = []
   \<and> getInitiativeTN grid_distance (sample_combatant ''p1'' ''Hero'' (Some 1) True 0 0 None)
      (Some [sample_combatant ''p1'' ''Hero'' (Some 1) True 0 0 None,
             sample_combatant ''a1'' ''Guard'' (Some 1) False 2 0 None])
      (sample_settings True (JNum 2) (Some (- 1))) = 6"
  by (simp add: getInitiativeTN_def derivedTN_def otherSide_def sample_combatant_def
      sample_token_def sample_settings_def FRIENDLY_def getDistanceToClosestOther_def
      getDistanceTN_def)

lemma fold_max_ge_start: "(a::int) \<le> fold max xs a"
proof (induction xs arbitrary: a)
  case Nil
  then show ?case by simp
next
  case (Cons x xs)
  have "a \<le> max x a"
    by simp
  also have "\<dots> \<le> fold max xs (max x a)"
    by (rule Cons.IH)
  finally show ?case
    by simp
qed

lemma fold_max_ge_member: "(x::int) \<in> set xs \<Longrightarrow> x \<le> fold max xs a"
proof (induction xs arbitrary: a)
  case Nil
  then show ?case by simp
next
  case (Cons y ys)
  show ?case
  proof (cases "x = y")
    case True
    have "x \<le> max y a"
      using True by simp
    also have "\<dots> \<le> fold max ys (max y a)"
      by (rule fold_max_ge_start)
    finally show ?thesis
      by simp
  next
    case False
    with Cons.prems have "x \<in> set ys"
      by simp
    from Cons.IH[OF this] show ?thesis
      by simp
  qed
qed

lemma tie_excludes_botch:
  assumes "rollTargetNumber e w tni d12 d10 d8 d6 d4 lbl rollingactor sendinchat = Inr (Some d, w')"
    and "2 \<le> tni" and "tnData d = Some tn" and "ties tn \<noteq> 0"
  shows "highest d \<noteq> 1"
proof -
  note res = rollTargetNumber_result[OF assms(1)]
  from res(1) assms(3,4) have "filter (\<lambda>x. x = tni) (first_results (roll d)) \<noteq> []"
    by auto
  then obtain x where "x \<in> set (filter (\<lambda>x. x = tni) (first_results (roll d)))"
    by (cases "filter (\<lambda>x. x = tni) (first_results (roll d))") auto
  then have "tni \<in> set (first_results (roll d))"
    by auto
  from fold_max_ge_member[OF this, of 0] res(2) have "tni \<le> highest d"
    by simp
  with assms(2) show ?thesis
    by linarith
qed

lemma initResultOf_agrees_from_2:
  assumes "rollTargetNumber e w tni d12 d10 d8 d6 d4 lbl rollingactor sendinchat = Inr (Some d, w')"
    and "2 \<le> tni"
  shows "initResultOf d = initResult_flavor_order d"
proof -
  from rollTargetNumber_result(1)[OF assms(1)] obtain tn where tn: "tnData d = Some tn"
    and nonneg: "0 \<le> ties tn"
    by simp
  have "\<not> (ties tn \<noteq> 0 \<and> highest d = 1)"
    using tie_excludes_botch[OF assms(1,2) tn] by blast
  with tn nonneg show ?thesis
    by (auto simp: initResultOf_def initResult_flavor_order_def)
qed

lemma rollInitiative_step_no_token:
  "token c = None \<Longrightarrow> rollInitiative_step md ir gir dice st cs c = Inl TypeError"
  by (simp add: rollInitiative_step_def Let_def split: prod.splits)

lemma rollInitiative_step_token:
  "token c = Some t \<Longrightarrow>
     \<exists>u. rollInitiative_step md ir gir dice st cs c = Inr u
       \<and> uid u = cid c
       \<and> uinitiativeResult u
           = initResultOf (getInitiativeRollIronclaw ir gir c (getInitiativeTN md c (Some cs) st))"
  by (simp add: rollInitiative_step_def Let_def split: prod.splits)

text \<open>
  Claim C7. The flavor text puts the botch before the tie; \<^verbatim>\<open>rollInitiative\<close> tests the
  tie before the botch. With the manual target number 1, two d6 both showing 1 give no
  success, two ties and a highest die of 1: the flavor text of the roll is the botch
  string and the order of the flavor text gives the code \<^verbatim>\<open>B\<close>, but the code stored on
  the combatant is the tie code \<^verbatim>\<open>T\<close>.
\<close>

theorem initiative_result_tie_before_botch:
  \<open>map_option tnData
     (returned (rollTargetNumber (sample_env [1, 1]) \<lparr>drawn = 0, chat = []\<rparr> 1 0 0 0 2 0
        ''Initiative'' None False)) = Some (Some \<lparr>successes = 0, ties = 2\<rparr>)
   \<and> map_option highest
     (returned (rollTargetNumber (sample_env [1, 1]) \<lparr>drawn = 0, chat = []\<rparr> 1 0 0 0 2 0
        ''Initiative'' None False)) = Some 1
   \<and> map_option (flavor \<circ> message)
     (returned (rollTargetNumber (sample_env [1, 1]) \<lparr>drawn = 0, chat = []\<rparr> 1 0 0 0 2 0
        ''Initiative'' None False))
      = Some ''<p>Initiative</p><p style="font-size:1.8em;color:red">urbanjungle.chat.botch</p>''
   \<and> map_option initResult_flavor_order
     (returned (rollTargetNumber (sample_env [1, 1]) \<lparr>drawn = 0, chat = []\<rparr> 1 0 0 0 2 0
        ''Initiative'' None False)) = Some ''B''
   \<and> map_option initResultOf
     (returned (rollTargetNumber (sample_env [1, 1]) \<lparr>drawn = 0, chat = []\<rparr> 1 0 0 0 2 0
        ''Initiative'' None False)) = Some ''T''
   \<and> rollInitiative_step grid_distance (sample_initiativeRoll (sample_env [1, 1]))
        sample_getInitiativeRoll first_results (sample_settings True (JNum 2) (Some 1))
        [sample_combatant ''p1'' ''Hero'' (Some 1) True 0 0 None]
        (sample_combatant ''p1'' ''Hero'' (Some 1) True 0 0 None)
      = Inr \<lparr>uid = ''p1'', uinitiative = 2, uinitiativeResult = ''T''\<rparr>
   \<and> rollInitiative grid_distance (sample_initiativeRoll (sample_env [1, 1]))
        sample_getInitiativeRoll first_results (sample_settings True (JNum 2) (Some 1))
        [sample_combatant ''p1'' ''Hero'' (Some 1) True 0 0 None] [''p1'']
      = Inr [(sample_combatant ''p1'' ''Hero'' (Some 1) True 0 0 None)
               \<lparr>initiative := Some 2, initiativeResult := Some ''T''\<rparr>]\<close>
  by code_simp

lemma catalog_no_empty_id: "[] \<notin> condId ` set conditionList"
  by (simp add: conditionList_def)

lemma catalog_distinct: "distinct (map condId conditionList)"
  by (simp add: conditionList_def)

lemma list_ex_status:
  "list_ex (\<lambda>y. statusId y = Some x) es = (Some x \<in> statusId ` set es)"
proof
  assume "list_ex (\<lambda>y. statusId y = Some x) es"
  then obtain y where "y \<in> set es" "statusId y = Some x"
    by (auto simp: list_ex_iff)
  then show "Some x \<in> statusId ` set es"
    by (metis imageI)
next
  assume "Some x \<in> statusId ` set es"
  then obtain y where "y \<in> set es" "Some x = statusId y"
    by (rule imageE)
  then show "list_ex (\<lambda>y. statusId y = Some x) es"
    by (auto simp: list_ex_iff)
qed

lemma list_ex_status_in:
  "list_ex (\<lambda>x. case statusId x of None \<Rightarrow> False | Some s \<Rightarrow> s \<in> set cs) es
     = (\<exists>x\<in>set cs. Some x \<in> statusId ` set es)"
proof
  assume "list_ex (\<lambda>x. case statusId x of None \<Rightarrow> False | Some s \<Rightarrow> s \<in> set cs) es"
  then obtain y where y: "y \<in> set es"
    and c: "case statusId y of None \<Rightarrow> False | Some s \<Rightarrow> s \<in> set cs"
    by (auto simp: list_ex_iff)
  from c obtain s where s: "statusId y = Some s" "s \<in> set cs"
    by (cases "statusId y") simp_all
  from y s(1) have "Some s \<in> statusId ` set es"
    by (metis imageI)
  with s(2) show "\<exists>x\<in>set cs. Some x \<in> statusId ` set es"
    by blast
next
  assume "\<exists>x\<in>set cs. Some x \<in> statusId ` set es"
  then obtain x y where "x \<in> set cs" "y \<in> set es" "Some x = statusId y"
    by (auto elim: imageE)
  then have "y \<in> set es \<and> (case statusId y of None \<Rightarrow> False | Some s \<Rightarrow> s \<in> set cs)"
    by (cases "statusId y") simp_all
  then show "list_ex (\<lambda>x. case statusId x of None \<Rightarrow> False | Some s \<Rightarrow> s \<in> set cs) es"
    unfolding list_ex_iff by blast
qed

lemma hasConditions_local:
  assumes "getTargetActor tg = Some a"
  shows "hasConditionsIronclaw False cubHas cs tg =
     (\<not> falsy cs \<and> (\<exists>x\<in>set (asArray cs). Some x \<in> statusId ` set (effects a)))"
proof -
  have tg: "tg \<noteq> NoTarget"
    using assms by auto
  show ?thesis
    using assms tg by (simp add: hasConditionsIronclaw_def list_ex_status_in)
qed

lemma matched_filter:
  "getMatchedConditions (filter P cs) = filter (\<lambda>c. condId c \<in> set cs \<and> P (condId c)) conditionList"
  by (simp add: getMatchedConditions_def)

lemma filter_cong_catalog:
  "(\<And>c. c \<in> set conditionList \<Longrightarrow> P c = Q c) \<Longrightarrow> filter P conditionList = filter Q conditionList"
  by (rule filter_cong) simp_all

lemma add_local:
  assumes "getTargetActor tg = Some a"
  shows "addConditionsIronclaw False cubHas loc cs tg =
     (let effs = prepareEffects loc
            (filter (\<lambda>c. condId c \<in> set (asArray cs) \<and> Some (condId c) \<notin> statusId ` set (effects a))
               conditionList)
      in if effs \<noteq> [] then Some (CreateEmbedded effs) else None)"
proof (cases "hasConditionsIronclaw False cubHas cs tg")
  case True
  then show ?thesis
    using assms matched_filter[of "\<lambda>x. Some x \<notin> statusId ` set (effects a)" "asArray cs"]
    by (simp add: addConditionsIronclaw_def Let_def list_ex_status)
next
  case False
  have "getMatchedConditions (asArray cs) =
      filter (\<lambda>c. condId c \<in> set (asArray cs) \<and> Some (condId c) \<notin> statusId ` set (effects a))
        conditionList"
    unfolding getMatchedConditions_def
  proof (rule filter_cong_catalog)
    fix c
    assume c: "c \<in> set conditionList"
    show "(condId c \<in> set (asArray cs)) =
        (condId c \<in> set (asArray cs) \<and> Some (condId c) \<notin> statusId ` set (effects a))"
    proof (cases "falsy cs")
      case True
      then have "asArray cs = [[]]"
        by (cases cs) simp_all
      moreover have "condId c \<noteq> []"
        using c catalog_no_empty_id by force
      ultimately show ?thesis
        by simp
    next
      case nf: False
      with False hasConditions_local[OF assms, of cubHas cs]
      have "\<forall>x\<in>set (asArray cs). Some x \<notin> statusId ` set (effects a)"
        by blast
      then show ?thesis
        by blast
    qed
  qed
  with False assms show ?thesis
    by (simp add: addConditionsIronclaw_def Let_def)
qed

lemma status_create_effects:
  "statusId ` set (create_effects n ds) = Some ` dataStatusId ` set ds"
  by (induction ds arbitrary: n) (simp_all add: image_iff)

lemma status_prepare:
  "dataStatusId ` set (prepareEffects loc conds) = condId ` set conds"
  by (simp add: prepareEffects_def image_image)

lemma map_status_prepare: "map dataStatusId (prepareEffects loc conds) = map condId conds"
  by (simp add: prepareEffects_def comp_def)

lemma prepare_empty_iff: "(prepareEffects loc conds = []) = (conds = [])"
  by (simp add: prepareEffects_def)

lemma status_after_add:
  assumes "getTargetActor tg = Some a"
  shows "statusId ` set (effects (apply_write (addConditionsIronclaw False cubHas loc cs tg) a))
     = statusId ` set (effects a)
        \<union> Some ` condId ` set (filter (\<lambda>c. condId c \<in> set (asArray cs)
              \<and> Some (condId c) \<notin> statusId ` set (effects a)) conditionList)"
proof (cases "filter (\<lambda>c. condId c \<in> set (asArray cs)
              \<and> Some (condId c) \<notin> statusId ` set (effects a)) conditionList = []")
  case True
  then show ?thesis
    by (simp add: add_local[OF assms] prepare_empty_iff)
next
  case False
  then show ?thesis
    by (simp add: add_local[OF assms] prepare_empty_iff Let_def image_Un status_create_effects
        status_prepare)
qed

lemma second_add_no_write:
  assumes "getTargetActor tg = Some a"
    and "getTargetActor tg' = Some (apply_write (addConditionsIronclaw False cubHas loc cs tg) a)"
  shows "addConditionsIronclaw False cubHas loc cs tg' = None"
proof -
  let ?S = "statusId ` set (effects a)"
  let ?a' = "apply_write (addConditionsIronclaw False cubHas loc cs tg) a"
  have "filter (\<lambda>c. condId c \<in> set (asArray cs) \<and> Some (condId c) \<notin> statusId ` set (effects ?a'))
      conditionList = []"
    unfolding filter_empty_conv
  proof
    fix c
    assume c: "c \<in> set conditionList"
    show "\<not> (condId c \<in> set (asArray cs) \<and> Some (condId c) \<notin> statusId ` set (effects ?a'))"
    proof
      assume h: "condId c \<in> set (asArray cs) \<and> Some (condId c) \<notin> statusId ` set (effects ?a')"
      then have notin: "Some (condId c) \<notin> ?S"
        unfolding status_after_add[OF assms(1)] by blast
      with c h have "c \<in> set (filter (\<lambda>c. condId c \<in> set (asArray cs)
              \<and> Some (condId c) \<notin> ?S) conditionList)"
        by simp
      then have "Some (condId c) \<in> statusId ` set (effects ?a')"
        unfolding status_after_add[OF assms(1)] by blast
      with h show False
        by blast
    qed
  qed
  then show ?thesis
    by (simp add: add_local[OF assms(2)] prepare_empty_iff)
qed

lemma created_only_absent:
  assumes "getTargetActor tg = Some a"
    and "addConditionsIronclaw False cubHas loc cs tg = Some (CreateEmbedded ds)"
  shows "distinct (map dataStatusId ds)"
    and "\<forall>d\<in>set ds. dataStatusId d \<in> set (asArray cs)
           \<and> dataStatusId d \<in> condId ` set conditionList
           \<and> Some (dataStatusId d) \<notin> statusId ` set (effects a)"
proof -
  let ?F = "filter (\<lambda>c. condId c \<in> set (asArray cs)
              \<and> Some (condId c) \<notin> statusId ` set (effects a)) conditionList"
  from assms(2) have ds: "ds = prepareEffects loc ?F"
    by (simp add: add_local[OF assms(1)] Let_def split: if_splits)
  show "distinct (map dataStatusId ds)"
    unfolding ds map_status_prepare using catalog_distinct by (rule distinct_map_filter)
  have im: "dataStatusId ` set ds = condId ` set ?F"
    unfolding ds by (rule status_prepare)
  show "\<forall>d\<in>set ds. dataStatusId d \<in> set (asArray cs)
           \<and> dataStatusId d \<in> condId ` set conditionList
           \<and> Some (dataStatusId d) \<notin> statusId ` set (effects a)"
  proof
    fix d
    assume "d \<in> set ds"
    then have "dataStatusId d \<in> condId ` set ?F"
      unfolding im[symmetric] by (rule imageI)
    then obtain c where c: "c \<in> set ?F" and e: "dataStatusId d = condId c"
      by (rule imageE)
    from c have "c \<in> set conditionList" "condId c \<in> set (asArray cs)"
      "Some (condId c) \<notin> statusId ` set (effects a)"
      by simp_all
    then show "dataStatusId d \<in> set (asArray cs)
           \<and> dataStatusId d \<in> condId ` set conditionList
           \<and> Some (dataStatusId d) \<notin> statusId ` set (effects a)"
      unfolding e by simp
  qed
qed

lemma remove_local_absent:
  assumes "\<forall>x\<in>set (asArray cs). Some x \<notin> statusId ` set (effects a)"
    and "getTargetActor tg = Some a"
  shows "removeConditionsIronclaw False cubHas cs tg checkfirst = None"
proof -
  have "\<not> list_ex (\<lambda>v. case statusId v of None \<Rightarrow> False | Some s \<Rightarrow> s \<in> set (asArray cs)) (effects a)"
    unfolding list_ex_status_in using assms(1) by blast
  then have "filter (\<lambda>v. case statusId v of None \<Rightarrow> False | Some s \<Rightarrow> s \<in> set (asArray cs)) (effects a) = []"
    unfolding list_ex_iff filter_empty_conv by blast
  then show ?thesis
    using assms(2) by (simp add: removeConditionsIronclaw_def)
qed

lemma remove_no_actor:
  "getTargetActor tg = None \<Longrightarrow> removeConditionsIronclaw False cubHas cs tg checkfirst = None"
  by (simp add: removeConditionsIronclaw_def)

lemma remove_cub_absent:
  "\<not> hasConditionsIronclaw True cubHas cs tg \<Longrightarrow>
     removeConditionsIronclaw True cubHas cs tg True = None"
  by (simp add: removeConditionsIronclaw_def)

text \<open>
  Claim C8. On the built-in backend \<^verbatim>\<open>addConditionsIronclaw\<close> creates one effect for each
  catalog condition of the list that the target does not carry yet and none for a
  condition it carries; adding the same list again writes nothing, so the target is the
  same after two additions as after one. \<^verbatim>\<open>removeConditionsIronclaw\<close> with
  \<^verbatim>\<open>checkfirst\<close> set writes nothing when the target carries none of the conditions, on
  the built-in backend and, where the check is the provider's, on the external one. A
  target without an actor is never written to.
\<close>

theorem condition_bookkeeping_idempotent:
  "(getTargetActor tg = Some a \<longrightarrow>
      (\<forall>ds. addConditionsIronclaw False cubHas loc cs tg = Some (CreateEmbedded ds) \<longrightarrow>
         distinct (map dataStatusId ds)
         \<and> (\<forall>d\<in>set ds. dataStatusId d \<in> set (asArray cs)
               \<and> dataStatusId d \<in> condId ` set conditionList
               \<and> Some (dataStatusId d) \<notin> statusId ` set (effects a)))
      \<and> (\<forall>tg'. getTargetActor tg'
                 = Some (apply_write (addConditionsIronclaw False cubHas loc cs tg) a) \<longrightarrow>
             addConditionsIronclaw False cubHas loc cs tg' = None)
      \<and> apply_write
            (addConditionsIronclaw False cubHas loc cs
               (ActorTarget (apply_write (addConditionsIronclaw False cubHas loc cs tg) a)))
            (apply_write (addConditionsIronclaw False cubHas loc cs tg) a)
          = apply_write (addConditionsIronclaw False cubHas loc cs tg) a
      \<and> ((\<forall>x\<in>set (asArray cs). Some x \<notin> statusId ` set (effects a)) \<longrightarrow>
            removeConditionsIronclaw False cubHas cs tg True = None))
   \<and> (getTargetActor tg = None \<longrightarrow>
        addConditionsIronclaw False cubHas loc cs tg = None
        \<and> removeConditionsIronclaw False cubHas cs tg True = None)
   \<and> (\<not> hasConditionsIronclaw True cubHas cs tg \<longrightarrow>
        removeConditionsIronclaw True cubHas cs tg True = None)"
proof (intro conjI impI allI)
  fix ds
  assume a: "getTargetActor tg = Some a"
    and c: "addConditionsIronclaw False cubHas loc cs tg = Some (CreateEmbedded ds)"
  show "distinct (map dataStatusId ds)"
    by (rule created_only_absent(1)[OF a c])
  show "\<forall>d\<in>set ds. dataStatusId d \<in> set (asArray cs)
               \<and> dataStatusId d \<in> condId ` set conditionList
               \<and> Some (dataStatusId d) \<notin> statusId ` set (effects a)"
    by (rule created_only_absent(2)[OF a c])
next
  fix tg'
  assume "getTargetActor tg = Some a"
    and "getTargetActor tg' = Some (apply_write (addConditionsIronclaw False cubHas loc cs tg) a)"
  then show "addConditionsIronclaw False cubHas loc cs tg' = None"
    by (rule second_add_no_write)
next
  assume a: "getTargetActor tg = Some a"
  have "addConditionsIronclaw False cubHas loc cs
               (ActorTarget (apply_write (addConditionsIronclaw False cubHas loc cs tg) a)) = None"
    by (rule second_add_no_write[OF a]) simp
  then show "apply_write
            (addConditionsIronclaw False cubHas loc cs
               (ActorTarget (apply_write (addConditionsIronclaw False cubHas loc cs tg) a)))
            (apply_write (addConditionsIronclaw False cubHas loc cs tg) a)
          = apply_write (addConditionsIronclaw False cubHas loc cs tg) a"
    by simp
next
  assume "getTargetActor tg = Some a"
    and "\<forall>x\<in>set (asArray cs). Some x \<notin> statusId ` set (effects a)"
  then show "removeConditionsIronclaw False cubHas cs tg True = None"
    by (simp add: remove_local_absent)
next
  assume "getTargetActor tg = None"
  then show "addConditionsIronclaw False cubHas loc cs tg = None"
    by (simp add: addConditionsIronclaw_def)
next
  assume "getTargetActor tg = None"
  then show "removeConditionsIronclaw False cubHas cs tg True = None"
    by (rule remove_no_actor)
next
  assume "\<not> hasConditionsIronclaw True cubHas cs tg"
  then show "removeConditionsIronclaw True cubHas cs tg True = None"
    by (rule remove_cub_absent)
qed

theorem condition_bookkeeping_idempotent_witness:
  "addConditionsIronclaw False sample_cubHas (\<lambda>k. k) (Many [''hurt'', ''afraid'', ''nonsense''])
       (ActorTarget sample_actor)
     = Some (CreateEmbedded
         [\<lparr>dataLabel = ''urbanjungle.effect.status.afraid'',
           dataIcon = ''systems/urbanjungle/icons/status/afraid.svg'',
           dataStatusId = ''afraid''\<rparr>])
   \<and> Some ''afraid'' \<notin> statusId ` set (effects sample_actor)
   \<and> map statusId (effects (apply_write
         (addConditionsIronclaw False sample_cubHas (\<lambda>k. k)
            (Many [''hurt'', ''afraid'', ''nonsense'']) (ActorTarget sample_actor)) sample_actor))
       = [Some ''hurt'', Some ''afraid'']
   \<and> addConditionsIronclaw False sample_cubHas (\<lambda>k. k) (Many [''hurt'', ''afraid'', ''nonsense''])
       (ActorTarget (apply_write
         (addConditionsIronclaw False sample_cubHas (\<lambda>k. k)
            (Many [''hurt'', ''afraid'', ''nonsense'']) (ActorTarget sample_actor)) sample_actor))
     = None
   \<and> removeConditionsIronclaw False sample_cubHas (Many [''dying'']) (ActorTarget sample_actor)
       True = None
   \<and> addConditionsIronclaw False sample_cubHas (\<lambda>k. k) (Many [''hurt'']) (TokenTarget None) = None
   \<and> removeConditionsIronclaw True sample_cubHas (Many [''dying'']) (ActorTarget sample_actor)
       True = None"
proof -
  let ?cs = "Many [''hurt'', ''afraid'', ''nonsense'']"
  let ?tg = "ActorTarget sample_actor"
  let ?A = "addConditionsIronclaw False sample_cubHas (\<lambda>k. k) ?cs ?tg"
  let ?d = "\<lparr>dataLabel = ''urbanjungle.effect.status.afraid'',
           dataIcon = ''systems/urbanjungle/icons/status/afraid.svg'',
           dataStatusId = ''afraid''\<rparr>"
  have ta: "getTargetActor ?tg = Some sample_actor"
    by simp
  have first: "?A = Some (CreateEmbedded [?d])"
    by code_simp
  note th = condition_bookkeeping_idempotent[of ?tg sample_actor sample_cubHas "\<lambda>k. k" ?cs]
  from th ta first have "\<forall>d\<in>set [?d]. dataStatusId d \<in> set (asArray ?cs)
               \<and> dataStatusId d \<in> condId ` set conditionList
               \<and> Some (dataStatusId d) \<notin> statusId ` set (effects sample_actor)"
    by blast
  then have absent: "Some ''afraid'' \<notin> statusId ` set (effects sample_actor)"
    by simp
  have after: "map statusId (effects (apply_write ?A sample_actor))
       = [Some ''hurt'', Some ''afraid'']"
    unfolding first by (simp add: sample_actor_def)
  have "getTargetActor (ActorTarget (apply_write ?A sample_actor))
      = Some (apply_write ?A sample_actor)"
    by simp
  with th ta have second: "addConditionsIronclaw False sample_cubHas (\<lambda>k. k) ?cs
       (ActorTarget (apply_write ?A sample_actor)) = None"
    by blast
  have none: "\<forall>x\<in>set (asArray (Many [''dying''])).
      Some x \<notin> statusId ` set (effects sample_actor)"
    by (simp add: sample_actor_def)
  from condition_bookkeeping_idempotent[of ?tg sample_actor sample_cubHas "\<lambda>k. k"
      "Many [''dying'']"] ta none
  have rem: "removeConditionsIronclaw False sample_cubHas (Many [''dying'']) ?tg True = None"
    by blast
  have "getTargetActor (TokenTarget None) = None"
    by simp
  with condition_bookkeeping_idempotent[of "TokenTarget None" sample_actor sample_cubHas
      "\<lambda>k. k" "Many [''hurt'']"]
  have noactor: "addConditionsIronclaw False sample_cubHas (\<lambda>k. k) (Many [''hurt''])
      (TokenTarget None) = None"
    by blast
  have "\<not> hasConditionsIronclaw True sample_cubHas (Many [''dying'']) ?tg"
    by (simp add: hasConditionsIronclaw_def sample_cubHas_def)
  with condition_bookkeeping_idempotent[of ?tg sample_actor sample_cubHas "\<lambda>k. k"
      "Many [''dying'']"]
  have cub: "removeConditionsIronclaw True sample_cubHas (Many [''dying'']) ?tg True = None"
    by blast
  from first absent after second rem noactor cub show ?thesis
    by (intro conjI)
qed

end
